theory Spec2Isabelle
  imports Main
begin

section \<open>JavaScript values\<close>

text \<open>
  A value that is a string or \<open>undefined\<close>/\<open>null\<close> is a \<open>string option\<close>.
  JavaScript's \<open>a || b\<close> yields \<open>a\<close> when \<open>a\<close> is truthy; a string is truthy
  exactly when it is not empty, \<open>undefined\<close> and \<open>null\<close> are falsy.
\<close>

definition truthy :: "string option \<Rightarrow> bool" where
  "truthy v = (case v of None \<Rightarrow> False | Some s \<Rightarrow> s \<noteq> [])"

definition js_or :: "string option \<Rightarrow> string option \<Rightarrow> string option" where
  "js_or a b = (if truthy a then a else b)"

text \<open>\<open>a || 'literal'\<close>: the right operand is a string, so the result is one.\<close>

definition or_else :: "string option \<Rightarrow> string \<Rightarrow> string" where
  "or_else a d = (case a of None \<Rightarrow> d | Some s \<Rightarrow> if s \<noteq> [] then s else d)"

text \<open>
  \<open>String(v)\<close>, as \<open>localStorage.setItem\<close> applies it to the value it stores, for a
  value that is a string or \<open>undefined\<close> (\<open>None\<close>). A \<open>null\<close> value, which would be
  stored as \<open>'null'\<close>, is not modelled.
\<close>

definition to_String :: "string option \<Rightarrow> string" where
  "to_String v = (case v of None \<Rightarrow> ''undefined'' | Some s \<Rightarrow> s)"

text \<open>Decimal rendering of a non-negative integer, as a template literal renders \<open>Date.now()\<close>.\<close>

definition digit_char :: "nat \<Rightarrow> char" where
  "digit_char d = char_of (48 + d)"

fun show_nat :: "nat \<Rightarrow> string" where
  "show_nat n = (if n < 10 then [digit_char n] else show_nat (n div 10) @ [digit_char (n mod 10)])"

declare show_nat.simps [simp del]

subsection \<open>Thrown values\<close>

text \<open>
  A thrown value is an object on which \<open>error.response?.data?.message\<close> and
  \<open>error.message\<close> can be read: an \<open>Error\<close>, an axios error carrying the HTTP response, a
  plain object, or a primitive such as a string (both reads give \<open>undefined\<close> there).
  \<open>null\<close> and \<open>undefined\<close> are not modelled as thrown values.
\<close>

datatype error_body = ErrorBody (data_message: "string option")

datatype error_response = ErrorResponse (err_status: nat) (err_data: "error_body option")

datatype js_error = JsError (err_response: "error_response option") (err_message: "string option")

text \<open>\<open>new Error(msg)\<close>\<close>

definition new_Error :: "string \<Rightarrow> js_error" where
  "new_Error msg = JsError None (Some msg)"

text \<open>\<open>error.response?.data?.message\<close>\<close>

definition response_message :: "js_error \<Rightarrow> string option" where
  "response_message error =
     (case err_response error of
        None \<Rightarrow> None
      | Some r \<Rightarrow> (case err_data r of None \<Rightarrow> None | Some d \<Rightarrow> data_message d))"

text \<open>\<open>error.response?.status\<close>\<close>

definition response_status :: "js_error \<Rightarrow> nat option" where
  "response_status error = map_option err_status (err_response error)"

section \<open>Data of the wallet flows\<close>

record account_info =
  address :: string
  publicKey :: string

record sign_response =
  signature :: string
  fullMessage :: string
  nonce :: string

text \<open>The body posted to \<open>/auth/wallet\<close> and \<open>/auth/link-wallet\<close>.\<close>

record post_body =
  body_address :: string
  body_publicKey :: "string option"
  body_signature :: string
  body_message :: string
  body_nonce :: string

record request =
  url :: string
  authorization :: "string option"
  payload :: post_body

text \<open>
  A resolved axios response: \<open>response.data\<close>, \<open>response.data.data\<close> and its \<open>token\<close>,
  a string, or \<open>None\<close> when the property is missing.
\<close>

datatype token_body = TokenBody (token_field: "string option")

datatype response_body = ResponseBody (data_field: "token_body option")

datatype axios_response = AxiosResponse (response_data: "response_body option")

text \<open>The result contract of \<open>authenticateWithWallet\<close> and \<open>linkWalletToAccount\<close>.\<close>

record auth_result =
  success :: bool
  token :: "string option"
  error :: "string option"

text \<open>The result of the service-backed \<open>connect\<close>.\<close>

record connect_result =
  connect_success :: bool
  connect_address :: "string option"
  connect_error :: "string option"

section \<open>The world: browser state, React state and the calls made\<close>

text \<open>React state of the service-backed provider (the \<open>useState\<close> cells).\<close>

record wallet_state =
  isConnected :: bool
  isConnecting :: bool
  wallet_address :: "string option"
  wallet_publicKey :: "string option"
  network :: "string option"
  isPetraInstalled :: bool

text \<open>What one render of the SDK-backed provider reads from \<open>useAptosWallet()\<close>.\<close>

record render =
  connected :: bool
  account :: "account_info option"
  wallets :: "string list"

datatype event =
    AptosConnect string
  | AptosDisconnect
  | AptosSignMessage string string
  | Delay nat
  | HttpPost request
  | ConsoleError string js_error
  | ServiceConnect
  | ServiceGetNetwork
  | ServiceDisconnect
  | ServiceSignMessage string

record world =
  localStorage :: "string \<Rightarrow> string option"
  location_href :: string
  trace :: "event list"
  ticks :: nat
  wallet :: wallet_state

text \<open>The suspension points at which the provider may report account changes.\<close>

datatype suspension = DuringConnect | DuringGetNetwork | DuringSign | DuringVerify | DuringDisconnect

text \<open>
  The external collaborators: what each call answers. \<open>Inl\<close> (or \<open>Some\<close> for a call
  without a result) is a rejected promise. The \<open>svc_\<close> fields are the operations of
  \<open>walletService\<close>, whose module is not part of the sources.
\<close>

record env =
  date_now :: "nat \<Rightarrow> nat"
  math_random :: string
  type_error_message :: string
  aptosConnect :: "string \<Rightarrow> js_error option"
  aptosDisconnect :: "js_error option"
  aptosSignMessage :: "string \<Rightarrow> string \<Rightarrow> js_error + sign_response"
  http_post :: "request \<Rightarrow> js_error + axios_response"
  svc_connect :: "js_error + account_info"
  svc_getNetwork :: "js_error + string option"
  svc_disconnect :: "js_error option"
  svc_getAddress :: "string option"
  svc_getPublicKey :: "string option"
  svc_generateAuthMessage :: "string \<Rightarrow> string"
  svc_signMessage :: "string \<Rightarrow> js_error + sign_response"
  account_events :: "suspension \<Rightarrow> account_info option list"

section \<open>Control flow: exceptions and effects\<close>

type_synonym 'a prog = "world \<Rightarrow> (js_error + 'a) \<times> world"

definition return :: "'a \<Rightarrow> 'a prog" where
  "return x w = (Inr x, w)"

definition throw :: "js_error \<Rightarrow> 'a prog" where
  "throw e w = (Inl e, w)"

definition andThen :: "'a prog \<Rightarrow> ('a \<Rightarrow> 'b prog) \<Rightarrow> 'b prog" where
  "andThen m k w = (case m w of (Inl e, w') \<Rightarrow> (Inl e, w') | (Inr x, w') \<Rightarrow> k x w')"

definition try_catch :: "'a prog \<Rightarrow> (js_error \<Rightarrow> 'a prog) \<Rightarrow> 'a prog" where
  "try_catch m h w = (case m w of (Inl e, w') \<Rightarrow> h e w' | (Inr x, w') \<Rightarrow> (Inr x, w'))"

definition try_finally :: "'a prog \<Rightarrow> (world \<Rightarrow> world) \<Rightarrow> 'a prog" where
  "try_finally m f w = (case m w of (r, w') \<Rightarrow> (r, f w'))"

definition emit :: "event \<Rightarrow> unit prog" where
  "emit ev w = (Inr (), w\<lparr>trace := trace w @ [ev]\<rparr>)"

definition console_error :: "string \<Rightarrow> js_error \<Rightarrow> unit prog" where
  "console_error label e = emit (ConsoleError label e)"

text \<open>\<open>await new Promise(resolve => setTimeout(resolve, ms))\<close>\<close>

definition delay :: "nat \<Rightarrow> unit prog" where
  "delay ms = emit (Delay ms)"

text \<open>\<open>Date.now()\<close>: the environment's clock, read once more.\<close>

definition Date_now :: "env \<Rightarrow> nat prog" where
  "Date_now env w = (Inr (date_now env (ticks w)), w\<lparr>ticks := Suc (ticks w)\<rparr>)"

definition localStorage_getItem :: "world \<Rightarrow> string \<Rightarrow> string option" where
  "localStorage_getItem w key = localStorage w key"

definition localStorage_setItem :: "string \<Rightarrow> string option \<Rightarrow> unit prog" where
  "localStorage_setItem key v w = (Inr (), w\<lparr>localStorage := (localStorage w)(key \<mapsto> to_String v)\<rparr>)"

definition localStorage_removeItem :: "string \<Rightarrow> world \<Rightarrow> world" where
  "localStorage_removeItem key w = w\<lparr>localStorage := (localStorage w)(key := None)\<rparr>"

section \<open>The API client (services/api.js)\<close>

text \<open>
  Request interceptor: reads the stored token and, when it is truthy, adds the
  \<open>Authorization\<close> header.
\<close>

definition request_interceptor :: "world \<Rightarrow> request \<Rightarrow> request" where
  "request_interceptor w config =
     (case localStorage_getItem w ''token'' of
        None \<Rightarrow> config
      | Some tok \<Rightarrow>
          if tok \<noteq> [] then config\<lparr>authorization := Some (''Bearer '' @ tok)\<rparr> else config)"

text \<open>
  Response interceptor, error branch: on status 401 the token is removed and the location is
  set to \<open>/login\<close>; the error is rejected again in every case.
\<close>

definition response_interceptor_error :: "js_error \<Rightarrow> 'a prog" where
  "response_interceptor_error err w =
     (if response_status err = Some 401
      then (Inl err, (localStorage_removeItem ''token'' w)\<lparr>location_href := ''/login''\<rparr>)
      else (Inl err, w))"

text \<open>Response interceptor, success branch: \<open>(response) => response\<close>.\<close>

definition response_interceptor :: "axios_response \<Rightarrow> axios_response prog" where
  "response_interceptor response = return response"

text \<open>\<open>api.post(url, data)\<close>: request interceptor, the HTTP exchange, response interceptor.\<close>

definition api_post :: "env \<Rightarrow> string \<Rightarrow> post_body \<Rightarrow> axios_response prog" where
  "api_post env u d w =
     (let config = request_interceptor w \<lparr>url = u, authorization = None, payload = d\<rparr>
      in andThen (emit (HttpPost config))
           (\<lambda>_. case http_post env config of
                   Inl err \<Rightarrow> response_interceptor_error err
                 | Inr response \<Rightarrow> response_interceptor response) w)"

text \<open>
  \<open>const { token } = response.data.data\<close>: a \<open>TypeError\<close> when \<open>response.data\<close> or
  \<open>response.data.data\<close> is missing; the token itself may be \<open>undefined\<close>.
\<close>

definition destructure_token :: "env \<Rightarrow> axios_response \<Rightarrow> (string option) prog" where
  "destructure_token env response =
     (case response_data response of
        None \<Rightarrow> throw (new_Error (type_error_message env))
      | Some body \<Rightarrow>
          (case data_field body of
             None \<Rightarrow> throw (new_Error (type_error_message env))
           | Some inner \<Rightarrow> return (token_field inner)))"

section \<open>The SDK-backed wallet context (context/WalletContext.tsx)\<close>

text \<open>
  Every callback closes over the values of one render \<open>r\<close>: \<open>connected\<close>, \<open>account\<close>
  and \<open>wallets\<close> are those of the render in which the callback was created and do not
  change while it runs.
\<close>

definition isPetraInstalled_sdk :: "render \<Rightarrow> bool" where
  "isPetraInstalled_sdk r = list_ex (\<lambda>n. n = ''Petra'') (wallets r)"

definition aptosConnect_call :: "env \<Rightarrow> string \<Rightarrow> unit prog" where
  "aptosConnect_call env walletName =
     andThen (emit (AptosConnect walletName))
       (\<lambda>_. case aptosConnect env walletName of None \<Rightarrow> return () | Some e \<Rightarrow> throw e)"

definition aptosDisconnect_call :: "env \<Rightarrow> unit prog" where
  "aptosDisconnect_call env =
     andThen (emit AptosDisconnect)
       (\<lambda>_. case aptosDisconnect env of None \<Rightarrow> return () | Some e \<Rightarrow> throw e)"

definition aptosSignMessage_call :: "env \<Rightarrow> string \<Rightarrow> string \<Rightarrow> sign_response prog" where
  "aptosSignMessage_call env message nonce' =
     andThen (emit (AptosSignMessage message nonce'))
       (\<lambda>_. case aptosSignMessage env message nonce' of Inl e \<Rightarrow> throw e | Inr response \<Rightarrow> return response)"

definition connect :: "env \<Rightarrow> string option \<Rightarrow> unit prog" where
  "connect env walletName =
     try_catch (aptosConnect_call env (or_else walletName ''Petra''))
       (\<lambda>err. andThen (console_error ''Failed to connect wallet:'' err) (\<lambda>_. throw err))"

definition disconnect :: "env \<Rightarrow> unit prog" where
  "disconnect env =
     try_catch (aptosDisconnect_call env)
       (\<lambda>err. andThen (console_error ''Failed to disconnect wallet:'' err) (\<lambda>_. throw err))"

definition signMessage :: "env \<Rightarrow> render \<Rightarrow> string \<Rightarrow> sign_response prog" where
  "signMessage env r message =
     (if \<not> connected r \<or> account r = None
      then throw (new_Error ''Wallet not connected'')
      else andThen (Date_now env)
             (\<lambda>now. andThen (aptosSignMessage_call env message (show_nat now @ math_random env))
             (\<lambda>response. return \<lparr>signature = signature response,
                                   fullMessage = fullMessage response,
                                   nonce = nonce response\<rparr>)))"

definition auth_message_text :: "string \<Rightarrow> nat \<Rightarrow> string" where
  "auth_message_text addr timestamp =
     ''Sign this message to authenticate with LifeVault.'' @ [CHR 0x0A, CHR 0x0A]
     @ ''Wallet: '' @ addr @ [CHR 0x0A]
     @ ''Timestamp: '' @ show_nat timestamp @ [CHR 0x0A, CHR 0x0A]
     @ ''This signature will not trigger any blockchain transaction or cost any gas fees.''"

definition generateAuthMessage :: "env \<Rightarrow> string \<Rightarrow> string prog" where
  "generateAuthMessage env addr =
     andThen (Date_now env) (\<lambda>timestamp. return (auth_message_text addr timestamp))"

definition link_message_text :: "string \<Rightarrow> nat \<Rightarrow> string" where
  "link_message_text addr timestamp =
     ''Link this wallet to your LifeVault account.'' @ [CHR 0x0A, CHR 0x0A]
     @ ''Wallet: '' @ addr @ [CHR 0x0A]
     @ ''Timestamp: '' @ show_nat timestamp"

definition generateLinkMessage :: "env \<Rightarrow> string \<Rightarrow> string prog" where
  "generateLinkMessage env addr =
     andThen (Date_now env) (\<lambda>timestamp. return (link_message_text addr timestamp))"

definition authenticateWithWallet :: "env \<Rightarrow> render \<Rightarrow> auth_result prog" where
  "authenticateWithWallet env r =
     try_catch
       (andThen
          (if \<not> connected r \<or> account r = None
           then andThen (connect env None) (\<lambda>_. delay 500)
           else return ())
          (\<lambda>_. case account r of
                  None \<Rightarrow> return \<lparr>success = False, token = None, error = Some ''No wallet connected''\<rparr>
                | Some currentAccount \<Rightarrow>
                    if address currentAccount = []
                    then return \<lparr>success = False, token = None, error = Some ''No wallet connected''\<rparr>
                    else
                      andThen (generateAuthMessage env (address currentAccount))
                      (\<lambda>message. andThen (signMessage env r message)
                      (\<lambda>signResult. andThen
                         (api_post env ''/auth/wallet''
                            \<lparr>body_address = address currentAccount,
                             body_publicKey = Some (publicKey currentAccount),
                             body_signature = signature signResult,
                             body_message = fullMessage signResult,
                             body_nonce = nonce signResult\<rparr>)
                      (\<lambda>response. andThen (destructure_token env response)
                      (\<lambda>tok. andThen (localStorage_setItem ''token'' tok)
                      (\<lambda>_. return \<lparr>success = True, token = tok, error = None\<rparr>)))))))
       (\<lambda>err. andThen (console_error ''Wallet authentication failed:'' err)
          (\<lambda>_. return \<lparr>success = False, token = None,
                         error = Some (or_else (js_or (response_message err) (err_message err))
                                         ''Authentication failed'')\<rparr>))"

definition linkWalletToAccount :: "env \<Rightarrow> render \<Rightarrow> auth_result prog" where
  "linkWalletToAccount env r =
     try_catch
       (andThen
          (if \<not> connected r \<or> account r = None
           then andThen (connect env None) (\<lambda>_. delay 500)
           else return ())
          (\<lambda>_. case account r of
                  None \<Rightarrow> return \<lparr>success = False, token = None, error = Some ''No wallet connected''\<rparr>
                | Some currentAccount \<Rightarrow>
                    if address currentAccount = []
                    then return \<lparr>success = False, token = None, error = Some ''No wallet connected''\<rparr>
                    else
                      andThen (generateLinkMessage env (address currentAccount))
                      (\<lambda>message. andThen (signMessage env r message)
                      (\<lambda>signResult. andThen
                         (api_post env ''/auth/link-wallet''
                            \<lparr>body_address = address currentAccount,
                             body_publicKey = Some (publicKey currentAccount),
                             body_signature = signature signResult,
                             body_message = fullMessage signResult,
                             body_nonce = nonce signResult\<rparr>)
                      (\<lambda>response. return \<lparr>success = True, token = None, error = None\<rparr>)))))
       (\<lambda>err. andThen (console_error ''Wallet linking failed:'' err)
          (\<lambda>_. return \<lparr>success = False, token = None,
                         error = Some (or_else (js_or (response_message err) (err_message err))
                                         ''Failed to link wallet'')\<rparr>))"

section \<open>The service-backed wallet context\<close>

text \<open>
  This provider keeps the wallet in React state and talks to \<open>walletService\<close>. A state
  setter updates the live state; a callback that is running keeps the \<open>address\<close> and
  \<open>publicKey\<close> it closed over when it was called.
\<close>

definition setWallet :: "(wallet_state \<Rightarrow> wallet_state) \<Rightarrow> unit prog" where
  "setWallet f w = (Inr (), w\<lparr>wallet := f (wallet w)\<rparr>)"

text \<open>The handler registered with \<open>walletService.onAccountChange\<close>.\<close>

definition onAccountChange_handler :: "account_info option \<Rightarrow> world \<Rightarrow> world" where
  "onAccountChange_handler acc w =
     (case acc of
        Some a \<Rightarrow>
          w\<lparr>wallet := (wallet w)\<lparr>wallet_address := Some (address a),
                                    wallet_publicKey := Some (publicKey a),
                                    isConnected := True\<rparr>\<rparr>
      | None \<Rightarrow>
          w\<lparr>wallet := (wallet w)\<lparr>wallet_address := None,
                                    wallet_publicKey := None,
                                    isConnected := False\<rparr>\<rparr>)"

text \<open>
  The handler is registered only when \<open>isPetraInstalled\<close> holds. While a call is
  suspended at \<open>s\<close>, the provider reports the account changes \<open>account_events env s\<close>, in
  order, and the handler runs for each before the call resumes.
\<close>

definition fire :: "env \<Rightarrow> suspension \<Rightarrow> world \<Rightarrow> world" where
  "fire env s w =
     (if isPetraInstalled (wallet w)
      then foldl (\<lambda>w' acc. onAccountChange_handler acc w') w (account_events env s)
      else w)"

definition suspend :: "env \<Rightarrow> suspension \<Rightarrow> 'a prog \<Rightarrow> 'a prog" where
  "suspend env s m w = (case m w of (r, w') \<Rightarrow> (r, fire env s w'))"

definition walletService_connect :: "env \<Rightarrow> account_info prog" where
  "walletService_connect env =
     suspend env DuringConnect
       (andThen (emit ServiceConnect)
          (\<lambda>_. case svc_connect env of Inl e \<Rightarrow> throw e | Inr result \<Rightarrow> return result))"

definition walletService_getNetwork :: "env \<Rightarrow> (string option) prog" where
  "walletService_getNetwork env =
     suspend env DuringGetNetwork
       (andThen (emit ServiceGetNetwork)
          (\<lambda>_. case svc_getNetwork env of Inl e \<Rightarrow> throw e | Inr net \<Rightarrow> return net))"

definition walletService_disconnect :: "env \<Rightarrow> unit prog" where
  "walletService_disconnect env =
     suspend env DuringDisconnect
       (andThen (emit ServiceDisconnect)
          (\<lambda>_. case svc_disconnect env of None \<Rightarrow> return () | Some e \<Rightarrow> throw e))"

definition walletService_signMessage :: "env \<Rightarrow> string \<Rightarrow> sign_response prog" where
  "walletService_signMessage env message =
     suspend env DuringSign
       (andThen (emit (ServiceSignMessage message))
          (\<lambda>_. case svc_signMessage env message of Inl e \<Rightarrow> throw e | Inr response \<Rightarrow> return response))"

definition connect_svc :: "env \<Rightarrow> connect_result prog" where
  "connect_svc env =
     try_finally
       (try_catch
          (andThen (setWallet (\<lambda>s. s\<lparr>isConnecting := True\<rparr>))
          (\<lambda>_. andThen (walletService_connect env)
          (\<lambda>result. andThen
             (setWallet (\<lambda>s. s\<lparr>isConnected := True,
                                wallet_address := Some (address result),
                                wallet_publicKey := Some (publicKey result)\<rparr>))
          (\<lambda>_. andThen (walletService_getNetwork env)
          (\<lambda>net. andThen (setWallet (\<lambda>s. s\<lparr>network := net\<rparr>))
          (\<lambda>_. return \<lparr>connect_success = True,
                         connect_address = Some (address result),
                         connect_error = None\<rparr>))))))
          (\<lambda>err. return \<lparr>connect_success = False,
                           connect_address = None,
                           connect_error = err_message err\<rparr>))
       (\<lambda>w. w\<lparr>wallet := (wallet w)\<lparr>isConnecting := False\<rparr>\<rparr>)"

definition disconnect_svc :: "env \<Rightarrow> unit prog" where
  "disconnect_svc env =
     andThen (walletService_disconnect env)
       (\<lambda>_. setWallet (\<lambda>s. s\<lparr>isConnected := False,
                                wallet_address := None,
                                wallet_publicKey := None\<rparr>))"

text \<open>\<open>signMessage\<close> of this context hands every message to the service.\<close>

definition signMessage_svc :: "env \<Rightarrow> string \<Rightarrow> sign_response prog" where
  "signMessage_svc env message = walletService_signMessage env message"

text \<open>
  \<open>useCallback(..., [address, publicKey, connect])\<close>: the callback of a render, closed over
  that render's \<open>address\<close> and \<open>publicKey\<close>.
\<close>

definition authenticateWithWallet_callback ::
  "env \<Rightarrow> string option \<Rightarrow> string option \<Rightarrow> auth_result prog" where
  "authenticateWithWallet_callback env address0 publicKey0 =
     (try_catch
           (andThen
              (if \<not> truthy address0
               then andThen (connect_svc env)
                      (\<lambda>connectResult.
                         return (if \<not> connect_success connectResult
                                 then Some \<lparr>success = False, token = None,
                                            error = connect_error connectResult\<rparr>
                                 else None))
               else return None)
              (\<lambda>early. case early of
                 Some res \<Rightarrow> return res
               | None \<Rightarrow>
                   (case js_or address0 (svc_getAddress env) of
                      None \<Rightarrow>
                        return \<lparr>success = False, token = None, error = Some ''No wallet address''\<rparr>
                    | Some currentAddress \<Rightarrow>
                       if currentAddress = []
                       then return \<lparr>success = False, token = None, error = Some ''No wallet address''\<rparr>
                       else
                         andThen (return (svc_generateAuthMessage env currentAddress))
                         (\<lambda>message. andThen (walletService_signMessage env message)
                         (\<lambda>signResult. andThen
                            (suspend env DuringVerify
                               (api_post env ''/auth/wallet''
                                  \<lparr>body_address = currentAddress,
                                   body_publicKey = js_or publicKey0 (svc_getPublicKey env),
                                   body_signature = signature signResult,
                                   body_message = fullMessage signResult,
                                   body_nonce = nonce signResult\<rparr>))
                         (\<lambda>response. andThen (destructure_token env response)
                         (\<lambda>tok. andThen (localStorage_setItem ''token'' tok)
                         (\<lambda>_. return \<lparr>success = True, token = tok, error = None\<rparr>))))))))
           (\<lambda>err. andThen (console_error ''Wallet authentication failed:'' err)
              (\<lambda>_. return \<lparr>success = False, token = None,
                             error = js_or (response_message err) (err_message err)\<rparr>)))"

text \<open>Calling \<open>authenticateWithWallet\<close> runs the callback of the current render.\<close>

definition authenticateWithWallet_svc :: "env \<Rightarrow> auth_result prog" where
  "authenticateWithWallet_svc env w =
     authenticateWithWallet_callback env (wallet_address (wallet w)) (wallet_publicKey (wallet w)) w"

definition linkWalletToAccount_callback ::
  "env \<Rightarrow> string option \<Rightarrow> string option \<Rightarrow> auth_result prog" where
  "linkWalletToAccount_callback env address0 publicKey0 =
     (try_catch
           (andThen
              (if \<not> truthy address0
               then andThen (connect_svc env)
                      (\<lambda>connectResult.
                         return (if \<not> connect_success connectResult
                                 then Some \<lparr>success = False, token = None,
                                            error = connect_error connectResult\<rparr>
                                 else None))
               else return None)
              (\<lambda>early. case early of
                 Some res \<Rightarrow> return res
               | None \<Rightarrow>
                   (case js_or address0 (svc_getAddress env) of
                      None \<Rightarrow>
                        return \<lparr>success = False, token = None, error = Some ''No wallet address''\<rparr>
                    | Some currentAddress \<Rightarrow>
                       if currentAddress = []
                       then return \<lparr>success = False, token = None, error = Some ''No wallet address''\<rparr>
                       else
                         andThen (generateLinkMessage env currentAddress)
                         (\<lambda>message. andThen (walletService_signMessage env message)
                         (\<lambda>signResult. andThen
                            (suspend env DuringVerify
                               (api_post env ''/auth/link-wallet''
                                  \<lparr>body_address = currentAddress,
                                   body_publicKey = js_or publicKey0 (svc_getPublicKey env),
                                   body_signature = signature signResult,
                                   body_message = fullMessage signResult,
                                   body_nonce = nonce signResult\<rparr>))
                         (\<lambda>response. return \<lparr>success = True, token = None, error = None\<rparr>))))))
           (\<lambda>err. andThen (console_error ''Wallet linking failed:'' err)
              (\<lambda>_. return \<lparr>success = False, token = None,
                             error = js_or (response_message err) (err_message err)\<rparr>)))"

definition linkWalletToAccount_svc :: "env \<Rightarrow> auth_result prog" where
  "linkWalletToAccount_svc env w =
     linkWalletToAccount_callback env (wallet_address (wallet w)) (wallet_publicKey (wallet w)) w"

section \<open>Searching a message for a text\<close>

primrec starts_with :: "string \<Rightarrow> string \<Rightarrow> bool" where
  "starts_with s [] = True"
| "starts_with s (c # p) = (case s of [] \<Rightarrow> False | d # s' \<Rightarrow> d = c \<and> starts_with s' p)"

text \<open>\<open>contains_text s p\<close>: the text \<open>p\<close> occurs somewhere in \<open>s\<close>.\<close>

primrec contains_text :: "string \<Rightarrow> string \<Rightarrow> bool" where
  "contains_text [] p = (p = [])"
| "contains_text (c # s) p = (starts_with (c # s) p \<or> contains_text s p)"

section \<open>Postconditions\<close>

text \<open>
  \<open>post m w Q E\<close>: running \<open>m\<close> from \<open>w\<close> either returns a value and a world that
  satisfy \<open>Q\<close>, or throws an error in a world that satisfy \<open>E\<close>.
\<close>

definition post ::
  "'a prog \<Rightarrow> world \<Rightarrow> ('a \<Rightarrow> world \<Rightarrow> bool) \<Rightarrow> (js_error \<Rightarrow> world \<Rightarrow> bool) \<Rightarrow> bool" where
  "post m w Q E = (case m w of (Inr x, w') \<Rightarrow> Q x w' | (Inl e, w') \<Rightarrow> E e w')"

section \<open>Example inputs\<close>

definition example_account :: account_info where
  "example_account = \<lparr>address = ''0xABC'', publicKey = ''0xPUB''\<rparr>"

definition other_account :: account_info where
  "other_account = \<lparr>address = ''0xDEF'', publicKey = ''0xPUB2''\<rparr>"

definition render_connected :: render where
  "render_connected = \<lparr>connected = True, account = Some example_account, wallets = [''Petra'']\<rparr>"

definition render_not_installed :: render where
  "render_not_installed = \<lparr>connected = False, account = None, wallets = []\<rparr>"

definition fresh_wallet :: wallet_state where
  "fresh_wallet = \<lparr>isConnected = False, isConnecting = False, wallet_address = None,
                    wallet_publicKey = None, network = None, isPetraInstalled = True\<rparr>"

definition fresh_world :: world where
  "fresh_world = \<lparr>localStorage = Map.empty, location_href = ''/'', trace = [], ticks = 0,
                   wallet = fresh_wallet\<rparr>"

definition connected_world :: world where
  "connected_world =
     fresh_world\<lparr>wallet := fresh_wallet\<lparr>isConnected := True,
                                             wallet_address := Some ''0xABC'',
                                             wallet_publicKey := Some ''0xPUB''\<rparr>\<rparr>"

definition logged_in_world :: world where
  "logged_in_world = connected_world\<lparr>localStorage := [''token'' \<mapsto> ''tok-old'']\<rparr>"

definition example_signature :: "string \<Rightarrow> string \<Rightarrow> sign_response" where
  "example_signature m n = \<lparr>signature = ''0xSIG'', fullMessage = m, nonce = n\<rparr>"

definition token_response :: "string \<Rightarrow> axios_response" where
  "token_response t = AxiosResponse (Some (ResponseBody (Some (TokenBody (Some t)))))"

definition example_env :: env where
  "example_env =
     \<lparr>date_now = (\<lambda>k. 1000 + k),
      math_random = ''k3j9x'',
      type_error_message = ''Cannot destructure property token'',
      aptosConnect = (\<lambda>_. None),
      aptosDisconnect = None,
      aptosSignMessage = (\<lambda>m n. Inr (example_signature m n)),
      http_post = (\<lambda>_. Inr (token_response ''tok123'')),
      svc_connect = Inr example_account,
      svc_getNetwork = Inr (Some ''testnet''),
      svc_disconnect = None,
      svc_getAddress = Some ''0xABC'',
      svc_getPublicKey = Some ''0xPUB'',
      svc_generateAuthMessage = (\<lambda>a. ''Sign in to LifeVault: '' @ a),
      svc_signMessage = (\<lambda>m. Inr (example_signature m ''n1'')),
      account_events = (\<lambda>_. [])\<rparr>"

definition not_installed_error :: js_error where
  "not_installed_error = new_Error ''Petra wallet is not installed''"

definition env_connect_rejects :: env where
  "env_connect_rejects =
     example_env\<lparr>aptosConnect := (\<lambda>_. Some not_installed_error),
                  svc_connect := Inl not_installed_error\<rparr>"

text \<open>A rejection whose value has no \<open>message\<close>, such as a thrown string.\<close>

definition bare_error :: js_error where
  "bare_error = JsError None None"

definition env_sign_rejects :: env where
  "env_sign_rejects =
     example_env\<lparr>aptosSignMessage := (\<lambda>_ _. Inl bare_error),
                  svc_signMessage := (\<lambda>_. Inl bare_error)\<rparr>"

definition http_error :: "nat \<Rightarrow> string \<Rightarrow> js_error" where
  "http_error code msg =
     JsError (Some (ErrorResponse code (Some (ErrorBody (Some msg))))) (Some ''Request failed'')"

definition env_verify_400 :: env where
  "env_verify_400 = example_env\<lparr>http_post := (\<lambda>_. Inl (http_error 400 ''Invalid signature''))\<rparr>"

definition env_verify_401 :: env where
  "env_verify_401 = example_env\<lparr>http_post := (\<lambda>_. Inl (http_error 401 ''Token expired''))\<rparr>"

definition env_disconnect_rejects :: env where
  "env_disconnect_rejects =
     example_env\<lparr>aptosDisconnect := Some (new_Error ''Wallet not connected''),
                  svc_disconnect := Some (new_Error ''Wallet not connected'')\<rparr>"

definition env_account_switch :: env where
  "env_account_switch =
     example_env\<lparr>account_events := (\<lambda>s. if s = DuringSign then [Some other_account] else [])\<rparr>"

definition env_account_switch_verify :: env where
  "env_account_switch_verify =
     example_env\<lparr>account_events := (\<lambda>s. if s = DuringVerify then [Some other_account] else [])\<rparr>"

section \<open>Shorthand for the terms of the flows\<close>

abbreviation sdk_nonce :: "env \<Rightarrow> world \<Rightarrow> string" where
  "sdk_nonce env w \<equiv> show_nat (date_now env (Suc (ticks w))) @ math_random env"

abbreviation wallet_request ::
  "world \<Rightarrow> string \<Rightarrow> string \<Rightarrow> string option \<Rightarrow> sign_response \<Rightarrow> request" where
  "wallet_request w u a pk sr \<equiv>
     request_interceptor w
       \<lparr>url = u, authorization = None,
        payload = \<lparr>body_address = a, body_publicKey = pk, body_signature = signature sr,
                   body_message = fullMessage sr, body_nonce = nonce sr\<rparr>\<rparr>"

abbreviation failure :: "string option \<Rightarrow> auth_result" where
  "failure msg \<equiv> \<lparr>success = False, token = None, error = msg\<rparr>"

abbreviation caught :: "js_error \<Rightarrow> string \<Rightarrow> string option" where
  "caught e fallback \<equiv> Some (or_else (js_or (response_message e) (err_message e)) fallback)"

section \<open>Unfolding rules\<close>

lemmas prog_defs =
  return_def throw_def andThen_def try_catch_def try_finally_def emit_def console_error_def
  delay_def Date_now_def localStorage_getItem_def localStorage_setItem_def
  localStorage_removeItem_def

lemmas api_defs =
  request_interceptor_def response_interceptor_error_def response_interceptor_def api_post_def
  destructure_token_def

lemmas sdk_defs =
  aptosConnect_call_def aptosDisconnect_call_def aptosSignMessage_call_def connect_def
  disconnect_def signMessage_def generateAuthMessage_def generateLinkMessage_def

lemmas svc_defs =
  setWallet_def suspend_def walletService_connect_def walletService_getNetwork_def
  walletService_disconnect_def walletService_signMessage_def connect_svc_def disconnect_svc_def
  signMessage_svc_def authenticateWithWallet_svc_def authenticateWithWallet_callback_def
  linkWalletToAccount_svc_def linkWalletToAccount_callback_def


lemmas example_defs =
  example_account_def other_account_def render_connected_def render_not_installed_def
  fresh_wallet_def fresh_world_def connected_world_def logged_in_world_def
  example_signature_def token_response_def example_env_def not_installed_error_def
  env_connect_rejects_def bare_error_def env_sign_rejects_def http_error_def
  env_verify_400_def env_verify_401_def env_disconnect_rejects_def env_account_switch_def
  env_account_switch_verify_def

section \<open>Rules for postconditions\<close>

lemma post_return: "Q x w \<Longrightarrow> post (return x) w Q E"
  by (simp add: post_def return_def)

lemma post_throw: "E e w \<Longrightarrow> post (throw e) w Q E"
  by (simp add: post_def throw_def)

lemma post_andThen: "post m w (\<lambda>x w'. post (k x) w' Q E) E \<Longrightarrow> post (andThen m k) w Q E"
  by (simp add: post_def andThen_def split: prod.splits sum.splits)

lemma post_try_catch: "post m w Q (\<lambda>e w'. post (h e) w' Q E) \<Longrightarrow> post (try_catch m h) w Q E"
  by (simp add: post_def try_catch_def split: prod.splits sum.splits)

lemma post_try_finally:
  "post m w (\<lambda>x w'. Q x (f w')) (\<lambda>e w'. E e (f w')) \<Longrightarrow> post (try_finally m f) w Q E"
  by (simp add: post_def try_finally_def split: prod.splits sum.splits)

lemma post_suspend:
  "post m w (\<lambda>x w'. Q x (fire env s w')) (\<lambda>e w'. E e (fire env s w'))
   \<Longrightarrow> post (suspend env s m) w Q E"
  by (simp add: post_def suspend_def split: prod.splits sum.splits)

lemma post_emit: "Q () (w\<lparr>trace := trace w @ [ev]\<rparr>) \<Longrightarrow> post (emit ev) w Q E"
  by (simp add: post_def emit_def)

lemma post_console_error:
  "Q () (w\<lparr>trace := trace w @ [ConsoleError l e]\<rparr>) \<Longrightarrow> post (console_error l e) w Q E"
  by (simp add: console_error_def post_emit)

lemma post_delay: "Q () (w\<lparr>trace := trace w @ [Delay n]\<rparr>) \<Longrightarrow> post (delay n) w Q E"
  by (simp add: delay_def post_emit)

lemma post_Date_now:
  "Q (date_now env (ticks w)) (w\<lparr>ticks := Suc (ticks w)\<rparr>) \<Longrightarrow> post (Date_now env) w Q E"
  by (simp add: post_def Date_now_def)

lemma post_setItem:
  "Q () (w\<lparr>localStorage := (localStorage w)(key \<mapsto> to_String v)\<rparr>)
   \<Longrightarrow> post (localStorage_setItem key v) w Q E"
  by (simp add: post_def localStorage_setItem_def)

lemma post_setWallet: "Q () (w\<lparr>wallet := f (wallet w)\<rparr>) \<Longrightarrow> post (setWallet f) w Q E"
  by (simp add: post_def setWallet_def)

lemma post_if:
  "(c \<Longrightarrow> post a w Q E) \<Longrightarrow> (\<not> c \<Longrightarrow> post b w Q E) \<Longrightarrow> post (if c then a else b) w Q E"
  by simp

lemma post_case_option:
  "(x = None \<Longrightarrow> post a w Q E) \<Longrightarrow> (\<And>y. x = Some y \<Longrightarrow> post (f y) w Q E)
   \<Longrightarrow> post (case x of None \<Rightarrow> a | Some y \<Rightarrow> f y) w Q E"
  by (cases x) simp_all

lemma post_case_sum:
  "(\<And>e. x = Inl e \<Longrightarrow> post (f e) w Q E) \<Longrightarrow> (\<And>y. x = Inr y \<Longrightarrow> post (g y) w Q E)
   \<Longrightarrow> post (case x of Inl e \<Rightarrow> f e | Inr y \<Rightarrow> g y) w Q E"
  by (cases x) simp_all

lemma post_api_post:
  assumes "\<And>cfg resp. Q resp (w\<lparr>trace := trace w @ [HttpPost cfg]\<rparr>)"
    and "\<And>cfg err. http_post env cfg = Inl err \<Longrightarrow> response_status err \<noteq> Some 401
           \<Longrightarrow> E err (w\<lparr>trace := trace w @ [HttpPost cfg]\<rparr>)"
    and "\<And>cfg err. http_post env cfg = Inl err \<Longrightarrow> response_status err = Some 401
           \<Longrightarrow> E err (w\<lparr>trace := trace w @ [HttpPost cfg],
                          localStorage := (localStorage w)(''token'' := None),
                          location_href := ''/login''\<rparr>)"
  shows "post (api_post env u d) w Q E"
  using assms by (simp add: post_def api_defs prog_defs Let_def split: sum.splits)

lemma post_destructure_token:
  "(\<And>t. Q t w) \<Longrightarrow> E (new_Error (type_error_message env)) w
   \<Longrightarrow> post (destructure_token env resp) w Q E"
  by (simp add: post_def destructure_token_def prog_defs split: option.splits)

lemmas post_rules =
  post_return post_throw post_andThen post_try_catch post_try_finally post_suspend post_emit
  post_console_error post_delay post_Date_now post_setItem post_setWallet post_if
  post_case_option post_case_sum post_api_post post_destructure_token

lemma post_returns: "post m w (\<lambda>x w'. P x) (\<lambda>e w'. False) \<Longrightarrow> \<exists>res. fst (m w) = Inr res \<and> P res"
  by (auto simp: post_def split: prod.splits sum.splits)

lemma post_world: "post m w (\<lambda>x w'. I w') (\<lambda>e w'. I w') \<Longrightarrow> I (snd (m w))"
  by (auto simp: post_def split: prod.splits sum.splits)

lemma or_else_nonempty: "d \<noteq> [] \<Longrightarrow> or_else a d \<noteq> []"
  by (simp add: or_else_def split: option.splits)

section \<open>Account-change handlers leave everything but the wallet alone\<close>

lemma handlers_frame:
  "localStorage (foldl (\<lambda>w' acc. onAccountChange_handler acc w') w evs) = localStorage w
   \<and> location_href (foldl (\<lambda>w' acc. onAccountChange_handler acc w') w evs) = location_href w
   \<and> trace (foldl (\<lambda>w' acc. onAccountChange_handler acc w') w evs) = trace w
   \<and> ticks (foldl (\<lambda>w' acc. onAccountChange_handler acc w') w evs) = ticks w
   \<and> isPetraInstalled (wallet (foldl (\<lambda>w' acc. onAccountChange_handler acc w') w evs))
       = isPetraInstalled (wallet w)
   \<and> network (wallet (foldl (\<lambda>w' acc. onAccountChange_handler acc w') w evs)) = network (wallet w)
   \<and> isConnecting (wallet (foldl (\<lambda>w' acc. onAccountChange_handler acc w') w evs))
       = isConnecting (wallet w)"
  by (induction evs arbitrary: w) (simp_all add: onAccountChange_handler_def split: option.splits)

lemma fire_frame [simp]:
  "localStorage (fire env s w) = localStorage w"
  "location_href (fire env s w) = location_href w"
  "trace (fire env s w) = trace w"
  "ticks (fire env s w) = ticks w"
  "isPetraInstalled (wallet (fire env s w)) = isPetraInstalled (wallet w)"
  "network (wallet (fire env s w)) = network (wallet w)"
  "isConnecting (wallet (fire env s w)) = isConnecting (wallet w)"
  by (simp_all add: fire_def handlers_frame)

section \<open>Symbolic execution of the SDK-backed flows\<close>

lemma connect_resolves:
  "aptosConnect env ''Petra'' = None \<Longrightarrow>
   connect env None w = (Inr (), w\<lparr>trace := trace w @ [AptosConnect ''Petra'']\<rparr>)"
  by (simp add: sdk_defs prog_defs or_else_def)

lemma connect_rejects:
  "aptosConnect env ''Petra'' = Some e \<Longrightarrow>
   connect env None w =
     (Inl e, w\<lparr>trace := trace w @ [AptosConnect ''Petra'',
                                      ConsoleError ''Failed to connect wallet:'' e]\<rparr>)"
  by (simp add: sdk_defs prog_defs or_else_def)

lemma sdk_auth_cold:
  assumes "account r = None"
  shows "authenticateWithWallet env r w =
     (case aptosConnect env ''Petra'' of
        None \<Rightarrow> (Inr (failure (Some ''No wallet connected'')),
                 w\<lparr>trace := trace w @ [AptosConnect ''Petra'', Delay 500]\<rparr>)
      | Some e \<Rightarrow> (Inr (failure (caught e ''Authentication failed'')),
                   w\<lparr>trace := trace w @ [AptosConnect ''Petra'',
                                           ConsoleError ''Failed to connect wallet:'' e,
                                           ConsoleError ''Wallet authentication failed:'' e]\<rparr>))"
  using assms
  by (cases "aptosConnect env ''Petra''")
     (simp_all add: authenticateWithWallet_def connect_resolves connect_rejects prog_defs)

lemma sdk_auth_connect_rejects:
  assumes "\<not> connected r \<or> account r = None" and "aptosConnect env ''Petra'' = Some e"
  shows "fst (authenticateWithWallet env r w) = Inr (failure (caught e ''Authentication failed''))"
  using assms by (simp add: authenticateWithWallet_def connect_rejects prog_defs)

lemma sdk_link_connect_rejects:
  assumes "\<not> connected r \<or> account r = None" and "aptosConnect env ''Petra'' = Some e"
  shows "fst (linkWalletToAccount env r w) = Inr (failure (caught e ''Failed to link wallet''))"
  using assms by (simp add: linkWalletToAccount_def connect_rejects prog_defs)

lemma sdk_auth_sign_rejects:
  assumes "connected r" and "account r = Some a" and "address a \<noteq> []"
    and "aptosSignMessage env (auth_message_text (address a) (date_now env (ticks w)))
           (sdk_nonce env w) = Inl e"
  shows "fst (authenticateWithWallet env r w) = Inr (failure (caught e ''Authentication failed''))"
  using assms by (simp add: authenticateWithWallet_def sdk_defs prog_defs)

lemma sdk_link_sign_rejects:
  assumes "connected r" and "account r = Some a" and "address a \<noteq> []"
    and "aptosSignMessage env (link_message_text (address a) (date_now env (ticks w)))
           (sdk_nonce env w) = Inl e"
  shows "fst (linkWalletToAccount env r w) = Inr (failure (caught e ''Failed to link wallet''))"
  using assms by (simp add: linkWalletToAccount_def sdk_defs prog_defs)

lemma sdk_auth_verify_rejects:
  assumes "connected r" and "account r = Some a" and "address a \<noteq> []"
    and "aptosSignMessage env (auth_message_text (address a) (date_now env (ticks w)))
           (sdk_nonce env w) = Inr sr"
    and "http_post env (wallet_request w ''/auth/wallet'' (address a) (Some (publicKey a)) sr) = Inl e"
  shows "fst (authenticateWithWallet env r w) = Inr (failure (caught e ''Authentication failed''))"
  using assms by (simp add: authenticateWithWallet_def sdk_defs prog_defs api_defs Let_def)

lemma sdk_link_verify_rejects:
  assumes "connected r" and "account r = Some a" and "address a \<noteq> []"
    and "aptosSignMessage env (link_message_text (address a) (date_now env (ticks w)))
           (sdk_nonce env w) = Inr sr"
    and "http_post env (wallet_request w ''/auth/link-wallet'' (address a) (Some (publicKey a)) sr)
           = Inl e"
  shows "fst (linkWalletToAccount env r w) = Inr (failure (caught e ''Failed to link wallet''))"
  using assms by (simp add: linkWalletToAccount_def sdk_defs prog_defs api_defs Let_def)

lemma sdk_auth_success:
  assumes "connected r" and "account r = Some a" and "address a \<noteq> []"
    and "aptosSignMessage env (auth_message_text (address a) (date_now env (ticks w)))
           (sdk_nonce env w) = Inr sr"
    and "http_post env (wallet_request w ''/auth/wallet'' (address a) (Some (publicKey a)) sr)
           = Inr (AxiosResponse (Some (ResponseBody (Some (TokenBody tok)))))"
  shows "fst (authenticateWithWallet env r w) = Inr \<lparr>success = True, token = tok, error = None\<rparr>"
    and "localStorage (snd (authenticateWithWallet env r w))
           = (localStorage w)(''token'' \<mapsto> to_String tok)"
    and "trace (snd (authenticateWithWallet env r w)) = trace w @
          [AptosSignMessage (auth_message_text (address a) (date_now env (ticks w))) (sdk_nonce env w),
           HttpPost (wallet_request w ''/auth/wallet'' (address a) (Some (publicKey a)) sr)]"
  using assms by (simp_all add: authenticateWithWallet_def sdk_defs prog_defs api_defs Let_def)

lemma sdk_link_success:
  assumes "connected r" and "account r = Some a" and "address a \<noteq> []"
    and "aptosSignMessage env (link_message_text (address a) (date_now env (ticks w)))
           (sdk_nonce env w) = Inr sr"
    and "http_post env (wallet_request w ''/auth/link-wallet'' (address a) (Some (publicKey a)) sr)
           = Inr resp"
  shows "fst (linkWalletToAccount env r w) = Inr \<lparr>success = True, token = None, error = None\<rparr>"
    and "localStorage (snd (linkWalletToAccount env r w)) = localStorage w"
    and "trace (snd (linkWalletToAccount env r w)) = trace w @
          [AptosSignMessage (link_message_text (address a) (date_now env (ticks w))) (sdk_nonce env w),
           HttpPost (wallet_request w ''/auth/link-wallet'' (address a) (Some (publicKey a)) sr)]"
  using assms by (simp_all add: linkWalletToAccount_def sdk_defs prog_defs api_defs Let_def)

lemma sdk_auth_total:
  "\<exists>res. fst (authenticateWithWallet env r w) = Inr res
         \<and> (success res \<or> (\<exists>s. error res = Some s \<and> s \<noteq> []))"
  apply (rule post_returns)
  unfolding authenticateWithWallet_def sdk_defs
  apply (intro post_rules conjI impI allI)
  apply (simp_all add: or_else_nonempty)
  done

lemma sdk_link_total:
  "\<exists>res. fst (linkWalletToAccount env r w) = Inr res
         \<and> (success res \<or> (\<exists>s. error res = Some s \<and> s \<noteq> []))"
  apply (rule post_returns)
  unfolding linkWalletToAccount_def sdk_defs
  apply (intro post_rules conjI impI allI)
  apply (simp_all add: or_else_nonempty)
  done

section \<open>Symbolic execution of the service-backed flows\<close>

lemma connect_svc_rejects:
  assumes "svc_connect env = Inl e"
  shows "fst (connect_svc env w) =
           Inr \<lparr>connect_success = False, connect_address = None, connect_error = err_message e\<rparr>"
    and "trace (snd (connect_svc env w)) = trace w @ [ServiceConnect]"
    and "localStorage (snd (connect_svc env w)) = localStorage w"
  using assms by (simp_all add: svc_defs prog_defs)

lemma svc_auth_connect_rejects:
  assumes "\<not> truthy (wallet_address (wallet w))" and "svc_connect env = Inl e"
  shows "fst (authenticateWithWallet_svc env w) = Inr (failure (err_message e))"
    and "trace (snd (authenticateWithWallet_svc env w)) = trace w @ [ServiceConnect]"
    and "localStorage (snd (authenticateWithWallet_svc env w)) = localStorage w"
  using assms by (simp_all add: svc_defs prog_defs)

lemma svc_link_connect_rejects:
  assumes "\<not> truthy (wallet_address (wallet w))" and "svc_connect env = Inl e"
  shows "fst (linkWalletToAccount_svc env w) = Inr (failure (err_message e))"
    and "trace (snd (linkWalletToAccount_svc env w)) = trace w @ [ServiceConnect]"
    and "localStorage (snd (linkWalletToAccount_svc env w)) = localStorage w"
  using assms by (simp_all add: svc_defs prog_defs)

lemma svc_auth_sign_rejects:
  assumes "wallet_address (wallet w) = Some a" and "a \<noteq> []"
    and "svc_signMessage env (svc_generateAuthMessage env a) = Inl e"
  shows "fst (authenticateWithWallet_svc env w)
           = Inr (failure (js_or (response_message e) (err_message e)))"
    and "localStorage (snd (authenticateWithWallet_svc env w)) = localStorage w"
  using assms by (simp_all add: svc_defs prog_defs truthy_def js_or_def [of "Some a"])

lemma svc_link_sign_rejects:
  assumes "wallet_address (wallet w) = Some a" and "a \<noteq> []"
    and "svc_signMessage env (link_message_text a (date_now env (ticks w))) = Inl e"
  shows "fst (linkWalletToAccount_svc env w)
           = Inr (failure (js_or (response_message e) (err_message e)))"
  using assms
  by (simp_all add: svc_defs generateLinkMessage_def prog_defs truthy_def js_or_def [of "Some a"])

lemma svc_auth_verify_rejects:
  assumes "wallet_address (wallet w) = Some a" and "a \<noteq> []"
    and "svc_signMessage env (svc_generateAuthMessage env a) = Inr sr"
    and "http_post env (wallet_request w ''/auth/wallet'' a
           (js_or (wallet_publicKey (wallet w)) (svc_getPublicKey env)) sr) = Inl e"
  shows "fst (authenticateWithWallet_svc env w)
           = Inr (failure (js_or (response_message e) (err_message e)))"
  using assms
  by (simp_all add: svc_defs prog_defs api_defs truthy_def Let_def js_or_def [of "Some a"])

lemma svc_link_verify_rejects:
  assumes "wallet_address (wallet w) = Some a" and "a \<noteq> []"
    and "svc_signMessage env (link_message_text a (date_now env (ticks w))) = Inr sr"
    and "http_post env (wallet_request w ''/auth/link-wallet'' a
           (js_or (wallet_publicKey (wallet w)) (svc_getPublicKey env)) sr) = Inl e"
  shows "fst (linkWalletToAccount_svc env w)
           = Inr (failure (js_or (response_message e) (err_message e)))"
  using assms
  by (simp_all add: svc_defs generateLinkMessage_def prog_defs api_defs truthy_def Let_def
      js_or_def [of "Some a"])

lemma svc_auth_success:
  assumes "wallet_address (wallet w) = Some a" and "a \<noteq> []"
    and "svc_signMessage env (svc_generateAuthMessage env a) = Inr sr"
    and "http_post env (wallet_request w ''/auth/wallet'' a
           (js_or (wallet_publicKey (wallet w)) (svc_getPublicKey env)) sr)
         = Inr (AxiosResponse (Some (ResponseBody (Some (TokenBody tok)))))"
  shows "fst (authenticateWithWallet_svc env w) = Inr \<lparr>success = True, token = tok, error = None\<rparr>"
    and "localStorage (snd (authenticateWithWallet_svc env w))
           = (localStorage w)(''token'' \<mapsto> to_String tok)"
    and "trace (snd (authenticateWithWallet_svc env w)) = trace w @
          [ServiceSignMessage (svc_generateAuthMessage env a),
           HttpPost (wallet_request w ''/auth/wallet'' a
             (js_or (wallet_publicKey (wallet w)) (svc_getPublicKey env)) sr)]"
  using assms
  by (simp_all add: svc_defs prog_defs api_defs truthy_def Let_def js_or_def [of "Some a"])

lemma svc_link_success:
  assumes "wallet_address (wallet w) = Some a" and "a \<noteq> []"
    and "svc_signMessage env (link_message_text a (date_now env (ticks w))) = Inr sr"
    and "http_post env (wallet_request w ''/auth/link-wallet'' a
           (js_or (wallet_publicKey (wallet w)) (svc_getPublicKey env)) sr) = Inr resp"
  shows "fst (linkWalletToAccount_svc env w) = Inr \<lparr>success = True, token = None, error = None\<rparr>"
    and "localStorage (snd (linkWalletToAccount_svc env w)) = localStorage w"
  using assms
  by (simp_all add: svc_defs generateLinkMessage_def prog_defs api_defs truthy_def Let_def
      js_or_def [of "Some a"])

lemma svc_link_cold_success:
  assumes "\<not> truthy (wallet_address (wallet w))"
    and "svc_connect env = Inr acc" and "svc_getNetwork env = Inr net"
    and "svc_getAddress env = Some a" and "a \<noteq> []"
    and "svc_signMessage env (link_message_text a (date_now env (ticks w))) = Inr sr"
    and "http_post env (wallet_request w ''/auth/link-wallet'' a
           (js_or (wallet_publicKey (wallet w)) (svc_getPublicKey env)) sr) = Inr resp"
  shows "fst (linkWalletToAccount_svc env w) = Inr \<lparr>success = True, token = None, error = None\<rparr>"
    and "localStorage (snd (linkWalletToAccount_svc env w)) = localStorage w"
    and "trace (snd (linkWalletToAccount_svc env w)) = trace w @
          [ServiceConnect, ServiceGetNetwork,
           ServiceSignMessage (link_message_text a (date_now env (ticks w))),
           HttpPost (wallet_request w ''/auth/link-wallet'' a
             (js_or (wallet_publicKey (wallet w)) (svc_getPublicKey env)) sr)]"
  using assms
  by (simp_all add: svc_defs generateLinkMessage_def prog_defs api_defs Let_def js_or_def)

lemma svc_auth_total: "\<exists>res. fst (authenticateWithWallet_svc env w) = Inr res"
proof -
  have "\<exists>res. fst (authenticateWithWallet_callback env a pk w) = Inr res \<and> True" for a pk
    apply (rule post_returns)
    unfolding authenticateWithWallet_callback_def connect_svc_def walletService_connect_def
      walletService_getNetwork_def walletService_signMessage_def
    apply (intro post_rules conjI impI allI)
    apply simp_all
    done
  then show ?thesis by (simp add: authenticateWithWallet_svc_def)
qed

lemma svc_link_total: "\<exists>res. fst (linkWalletToAccount_svc env w) = Inr res"
proof -
  have "\<exists>res. fst (linkWalletToAccount_callback env a pk w) = Inr res \<and> True" for a pk
    apply (rule post_returns)
    unfolding linkWalletToAccount_callback_def connect_svc_def walletService_connect_def
      walletService_getNetwork_def walletService_signMessage_def generateLinkMessage_def
    apply (intro post_rules conjI impI allI)
    apply simp_all
    done
  then show ?thesis by (simp add: linkWalletToAccount_svc_def)
qed

section \<open>What the link flows do to the store\<close>

lemma request_interceptor_keeps [simp]:
  "url (request_interceptor w c) = url c" "payload (request_interceptor w c) = payload c"
  by (simp_all add: request_interceptor_def split: option.splits)

lemma sdk_link_frame:
  "localStorage (snd (linkWalletToAccount env r w)) = localStorage w
   \<or> ((\<exists>req e. http_post env req = Inl e \<and> response_status e = Some 401)
       \<and> localStorage (snd (linkWalletToAccount env r w)) = (localStorage w)(''token'' := None))"
proof -
  define I where "I w' \<longleftrightarrow>
    localStorage w' = localStorage w
    \<or> ((\<exists>req e. http_post env req = Inl e \<and> response_status e = Some 401)
        \<and> localStorage w' = (localStorage w)(''token'' := None))" for w' :: world
  have "post (linkWalletToAccount env r) w (\<lambda>_. I) (\<lambda>_. I)"
    unfolding linkWalletToAccount_def sdk_defs
    apply (intro post_rules conjI impI allI)
    apply (auto simp: I_def)
    done
  then have "I (snd (linkWalletToAccount env r w))" by (rule post_world)
  then show ?thesis by (simp add: I_def)
qed

lemma svc_link_frame:
  "localStorage (snd (linkWalletToAccount_svc env w)) = localStorage w
   \<or> ((\<exists>req e. http_post env req = Inl e \<and> response_status e = Some 401)
       \<and> localStorage (snd (linkWalletToAccount_svc env w)) = (localStorage w)(''token'' := None))"
proof -
  define I where "I w' \<longleftrightarrow>
    localStorage w' = localStorage w
    \<or> ((\<exists>req e. http_post env req = Inl e \<and> response_status e = Some 401)
        \<and> localStorage w' = (localStorage w)(''token'' := None))" for w' :: world
  have "post (linkWalletToAccount_callback env a pk) w (\<lambda>_. I) (\<lambda>_. I)" for a pk
    unfolding linkWalletToAccount_callback_def connect_svc_def walletService_connect_def
      walletService_getNetwork_def walletService_signMessage_def generateLinkMessage_def
    apply (intro post_rules conjI impI allI)
    apply (auto simp: I_def)
    done
  then have "I (snd (linkWalletToAccount_callback env a pk w))" for a pk by (rule post_world)
  then show ?thesis by (simp add: I_def linkWalletToAccount_svc_def)
qed

lemma sdk_link_verify_rejects_store:
  assumes "connected r" and "account r = Some a" and "address a \<noteq> []"
    and "aptosSignMessage env (link_message_text (address a) (date_now env (ticks w)))
           (sdk_nonce env w) = Inr sr"
    and "http_post env (wallet_request w ''/auth/link-wallet'' (address a) (Some (publicKey a)) sr)
           = Inl e"
  shows "localStorage (snd (linkWalletToAccount env r w))
           = (if response_status e = Some 401 then (localStorage w)(''token'' := None)
              else localStorage w)"
  using assms by (simp add: linkWalletToAccount_def sdk_defs prog_defs api_defs Let_def)

section \<open>Disconnecting\<close>

lemma handlers_reset:
  "(wallet (foldl (\<lambda>w' acc. onAccountChange_handler acc w') w evs))
      \<lparr>isConnected := False, wallet_address := None, wallet_publicKey := None\<rparr>
   = (wallet w)\<lparr>isConnected := False, wallet_address := None, wallet_publicKey := None\<rparr>"
  by (induction evs arbitrary: w) (simp_all add: onAccountChange_handler_def split: option.splits)

lemma fire_reset:
  "(wallet (fire env s w))\<lparr>isConnected := False, wallet_address := None, wallet_publicKey := None\<rparr>
   = (wallet w)\<lparr>isConnected := False, wallet_address := None, wallet_publicKey := None\<rparr>"
  by (simp add: fire_def handlers_reset)

lemma fire_no_events: "account_events env s = [] \<Longrightarrow> fire env s w = w"
  by (simp add: fire_def)

lemma disconnect_resolves:
  "aptosDisconnect env = None \<Longrightarrow>
   disconnect env w = (Inr (), w\<lparr>trace := trace w @ [AptosDisconnect]\<rparr>)"
  by (simp add: sdk_defs prog_defs)

lemma disconnect_rejects:
  "aptosDisconnect env = Some e \<Longrightarrow>
   disconnect env w =
     (Inl e, w\<lparr>trace := trace w @ [AptosDisconnect,
                                      ConsoleError ''Failed to disconnect wallet:'' e]\<rparr>)"
  by (simp add: sdk_defs prog_defs)

lemma disconnect_svc_resolves:
  assumes "svc_disconnect env = None"
  shows "fst (disconnect_svc env w) = Inr ()"
    and "wallet (snd (disconnect_svc env w))
           = (wallet w)\<lparr>isConnected := False, wallet_address := None, wallet_publicKey := None\<rparr>"
    and "trace (snd (disconnect_svc env w)) = trace w @ [ServiceDisconnect]"
  using assms by (simp_all add: svc_defs prog_defs fire_reset)

lemma disconnect_svc_rejects:
  assumes "svc_disconnect env = Some e"
  shows "fst (disconnect_svc env w) = Inl e"
    and "snd (disconnect_svc env w)
           = fire env DuringDisconnect (w\<lparr>trace := trace w @ [ServiceDisconnect]\<rparr>)"
  using assms by (simp_all add: svc_defs prog_defs)

section \<open>Account changes while a call is suspended\<close>

lemma svc_auth_account_switch:
  assumes "isPetraInstalled (wallet w)"
    and "wallet_address (wallet w) = Some a" and "a \<noteq> []"
    and "account_events env DuringSign = [Some b]" and "account_events env DuringVerify = []"
    and "svc_signMessage env (svc_generateAuthMessage env a) = Inr sr"
    and "http_post env (wallet_request w ''/auth/wallet'' a
           (js_or (wallet_publicKey (wallet w)) (svc_getPublicKey env)) sr)
         = Inr (AxiosResponse (Some (ResponseBody (Some (TokenBody tok)))))"
  shows "wallet_address (wallet (snd (authenticateWithWallet_svc env w))) = Some (address b)"
  using assms
  by (simp add: svc_defs prog_defs api_defs truthy_def Let_def js_or_def [of "Some a"] fire_def
      onAccountChange_handler_def)

section \<open>Further facts about the flows\<close>

lemma show_nat_1000: "show_nat 1000 = ''1000''"
  by code_simp

lemma sdk_auth_signs_login_text:
  assumes "connected r" and "account r = Some a" and "address a \<noteq> []"
  shows "\<exists>rest. trace (snd (authenticateWithWallet env r w)) = trace w @
           AptosSignMessage (auth_message_text (address a) (date_now env (ticks w)))
             (sdk_nonce env w) # rest"
proof -
  define I where "I w' \<longleftrightarrow> (\<exists>rest. trace w' = trace w @
           AptosSignMessage (auth_message_text (address a) (date_now env (ticks w)))
             (sdk_nonce env w) # rest)" for w' :: world
  have "post (authenticateWithWallet env r) w (\<lambda>_. I) (\<lambda>_. I)"
    unfolding authenticateWithWallet_def sdk_defs
    apply (intro post_rules conjI impI allI)
    using assms apply (auto simp: I_def)
    done
  then have "I (snd (authenticateWithWallet env r w))" by (rule post_world)
  then show ?thesis by (simp add: I_def)
qed

lemma sdk_link_signs_link_text:
  assumes "connected r" and "account r = Some a" and "address a \<noteq> []"
  shows "\<exists>rest. trace (snd (linkWalletToAccount env r w)) = trace w @
           AptosSignMessage (link_message_text (address a) (date_now env (ticks w)))
             (sdk_nonce env w) # rest"
proof -
  define I where "I w' \<longleftrightarrow> (\<exists>rest. trace w' = trace w @
           AptosSignMessage (link_message_text (address a) (date_now env (ticks w)))
             (sdk_nonce env w) # rest)" for w' :: world
  have "post (linkWalletToAccount env r) w (\<lambda>_. I) (\<lambda>_. I)"
    unfolding linkWalletToAccount_def sdk_defs
    apply (intro post_rules conjI impI allI)
    using assms apply (auto simp: I_def)
    done
  then have "I (snd (linkWalletToAccount env r w))" by (rule post_world)
  then show ?thesis by (simp add: I_def)
qed

lemma svc_link_signs_link_text:
  assumes "wallet_address (wallet w) = Some a" and "a \<noteq> []"
  shows "\<exists>rest. trace (snd (linkWalletToAccount_svc env w)) = trace w @
           ServiceSignMessage (link_message_text a (date_now env (ticks w))) # rest"
proof -
  define I where "I w' \<longleftrightarrow> (\<exists>rest. trace w' = trace w @
           ServiceSignMessage (link_message_text a (date_now env (ticks w))) # rest)"
    for w' :: world
  have "post (linkWalletToAccount_callback env (Some a) pk) w (\<lambda>_. I) (\<lambda>_. I)" for pk
    unfolding linkWalletToAccount_callback_def connect_svc_def walletService_connect_def
      walletService_getNetwork_def walletService_signMessage_def generateLinkMessage_def
    apply (intro post_rules conjI impI allI)
    using assms apply (auto simp: I_def truthy_def js_or_def)
    done
  then have "I (snd (linkWalletToAccount_callback env (Some a) pk w))" for pk
    by (rule post_world)
  then show ?thesis using assms by (simp add: I_def linkWalletToAccount_svc_def)
qed

lemma svc_auth_cold_sign_rejects:
  assumes "\<not> truthy (wallet_address (wallet w))"
    and "svc_connect env = Inr acc" and "svc_getNetwork env = Inr net"
    and "svc_getAddress env = Some a" and "a \<noteq> []"
    and "svc_signMessage env (svc_generateAuthMessage env a) = Inl e"
  shows "fst (authenticateWithWallet_svc env w)
           = Inr (failure (js_or (response_message e) (err_message e)))"
  using assms by (simp add: svc_defs prog_defs js_or_def [of "wallet_address (wallet w)"])

lemma svc_link_cold_sign_rejects:
  assumes "\<not> truthy (wallet_address (wallet w))"
    and "svc_connect env = Inr acc" and "svc_getNetwork env = Inr net"
    and "svc_getAddress env = Some a" and "a \<noteq> []"
    and "svc_signMessage env (link_message_text a (date_now env (ticks w))) = Inl e"
  shows "fst (linkWalletToAccount_svc env w)
           = Inr (failure (js_or (response_message e) (err_message e)))"
  using assms
  by (simp add: svc_defs generateLinkMessage_def prog_defs
      js_or_def [of "wallet_address (wallet w)"])

lemma svc_auth_cold_verify_rejects:
  assumes "\<not> truthy (wallet_address (wallet w))"
    and "svc_connect env = Inr acc" and "svc_getNetwork env = Inr net"
    and "svc_getAddress env = Some a" and "a \<noteq> []"
    and "svc_signMessage env (svc_generateAuthMessage env a) = Inr sr"
    and "http_post env (wallet_request w ''/auth/wallet'' a
           (js_or (wallet_publicKey (wallet w)) (svc_getPublicKey env)) sr) = Inl e"
  shows "fst (authenticateWithWallet_svc env w)
           = Inr (failure (js_or (response_message e) (err_message e)))"
  using assms
  by (simp add: svc_defs prog_defs api_defs Let_def js_or_def [of "wallet_address (wallet w)"])

lemma svc_link_cold_verify_rejects:
  assumes "\<not> truthy (wallet_address (wallet w))"
    and "svc_connect env = Inr acc" and "svc_getNetwork env = Inr net"
    and "svc_getAddress env = Some a" and "a \<noteq> []"
    and "svc_signMessage env (link_message_text a (date_now env (ticks w))) = Inr sr"
    and "http_post env (wallet_request w ''/auth/link-wallet'' a
           (js_or (wallet_publicKey (wallet w)) (svc_getPublicKey env)) sr) = Inl e"
  shows "fst (linkWalletToAccount_svc env w)
           = Inr (failure (js_or (response_message e) (err_message e)))"
  using assms
  by (simp add: svc_defs generateLinkMessage_def prog_defs api_defs Let_def
      js_or_def [of "wallet_address (wallet w)"])

lemma svc_auth_account_switch_verify:
  assumes "isPetraInstalled (wallet w)"
    and "wallet_address (wallet w) = Some a" and "a \<noteq> []"
    and "account_events env DuringSign = []" and "account_events env DuringVerify = [Some b]"
    and "svc_signMessage env (svc_generateAuthMessage env a) = Inr sr"
    and "http_post env (wallet_request w ''/auth/wallet'' a
           (js_or (wallet_publicKey (wallet w)) (svc_getPublicKey env)) sr)
         = Inr (AxiosResponse (Some (ResponseBody (Some (TokenBody tok)))))"
  shows "wallet_address (wallet (snd (authenticateWithWallet_svc env w))) = Some (address b)"
  using assms
  by (simp add: svc_defs prog_defs api_defs truthy_def Let_def js_or_def [of "Some a"] fire_def
      onAccountChange_handler_def)

lemma signMessage_svc_forwards:
  "signMessage_svc env message w =
     (svc_signMessage env message,
      fire env DuringSign (w\<lparr>trace := trace w @ [ServiceSignMessage message]\<rparr>))"
  by (cases "svc_signMessage env message") (simp_all add: svc_defs prog_defs)

section \<open>The claims\<close>

text \<open>
  C1. Neither flow throws: \<open>authenticateWithWallet\<close> and
  \<open>linkWalletToAccount\<close> always return a result. In the SDK-backed context a failed result
  carries a non-empty error string, and when the provider's connect, the provider's sign or the
  backend call is rejected with \<open>e\<close>, that string is the response's \<open>message\<close> when it
  is a non-empty string, otherwise \<open>e.message\<close> when that is one, otherwise the fallback
  (``Authentication failed'', ``Failed to link wallet''). In the service-backed context there
  is no fallback: a rejected sign or backend call gives the response's \<open>message\<close> or else
  \<open>e.message\<close>, which may be absent, whether the wallet was connected already or the flow
  connected it first, and a rejected connect gives \<open>e.message\<close>.
\<close>

theorem wallet_flows_recover_errors:
  "(\<exists>res. fst (authenticateWithWallet env r w) = Inr res
           \<and> (success res \<or> (\<exists>s. error res = Some s \<and> s \<noteq> [])))
   \<and> (\<exists>res. fst (linkWalletToAccount env r w) = Inr res
           \<and> (success res \<or> (\<exists>s. error res = Some s \<and> s \<noteq> [])))
   \<and> (\<exists>res. fst (authenticateWithWallet_svc env w) = Inr res)
   \<and> (\<exists>res. fst (linkWalletToAccount_svc env w) = Inr res)
   \<and> ((\<not> connected r \<or> account r = None) \<and> aptosConnect env ''Petra'' = Some e
        \<longrightarrow> fst (authenticateWithWallet env r w) = Inr (failure (caught e ''Authentication failed''))
          \<and> fst (linkWalletToAccount env r w) = Inr (failure (caught e ''Failed to link wallet'')))
   \<and> (connected r \<and> (\<exists>a. account r = Some a \<and> address a \<noteq> [])
        \<and> (\<forall>m n. aptosSignMessage env m n = Inl e)
        \<longrightarrow> fst (authenticateWithWallet env r w) = Inr (failure (caught e ''Authentication failed''))
          \<and> fst (linkWalletToAccount env r w) = Inr (failure (caught e ''Failed to link wallet'')))
   \<and> (connected r \<and> (\<exists>a. account r = Some a \<and> address a \<noteq> [])
        \<and> (\<forall>m n. \<exists>sr. aptosSignMessage env m n = Inr sr) \<and> (\<forall>req. http_post env req = Inl e)
        \<longrightarrow> fst (authenticateWithWallet env r w) = Inr (failure (caught e ''Authentication failed''))
          \<and> fst (linkWalletToAccount env r w) = Inr (failure (caught e ''Failed to link wallet'')))
   \<and> (\<not> truthy (wallet_address (wallet w)) \<and> svc_connect env = Inl e
        \<longrightarrow> fst (authenticateWithWallet_svc env w) = Inr (failure (err_message e))
          \<and> fst (linkWalletToAccount_svc env w) = Inr (failure (err_message e)))
   \<and> (truthy (wallet_address (wallet w)) \<and> (\<forall>m. svc_signMessage env m = Inl e)
        \<longrightarrow> fst (authenticateWithWallet_svc env w)
              = Inr (failure (js_or (response_message e) (err_message e)))
          \<and> fst (linkWalletToAccount_svc env w)
              = Inr (failure (js_or (response_message e) (err_message e))))
   \<and> (truthy (wallet_address (wallet w))
        \<and> (\<forall>m. \<exists>sr. svc_signMessage env m = Inr sr) \<and> (\<forall>req. http_post env req = Inl e)
        \<longrightarrow> fst (authenticateWithWallet_svc env w)
              = Inr (failure (js_or (response_message e) (err_message e)))
          \<and> fst (linkWalletToAccount_svc env w)
              = Inr (failure (js_or (response_message e) (err_message e))))
   \<and> (\<not> truthy (wallet_address (wallet w)) \<and> (\<exists>acc. svc_connect env = Inr acc)
        \<and> (\<exists>net. svc_getNetwork env = Inr net)
        \<and> (\<exists>addr. svc_getAddress env = Some addr \<and> addr \<noteq> [])
        \<and> (\<forall>m. svc_signMessage env m = Inl e)
        \<longrightarrow> fst (authenticateWithWallet_svc env w)
              = Inr (failure (js_or (response_message e) (err_message e)))
          \<and> fst (linkWalletToAccount_svc env w)
              = Inr (failure (js_or (response_message e) (err_message e))))
   \<and> (\<not> truthy (wallet_address (wallet w)) \<and> (\<exists>acc. svc_connect env = Inr acc)
        \<and> (\<exists>net. svc_getNetwork env = Inr net)
        \<and> (\<exists>addr. svc_getAddress env = Some addr \<and> addr \<noteq> [])
        \<and> (\<forall>m. \<exists>sr. svc_signMessage env m = Inr sr) \<and> (\<forall>req. http_post env req = Inl e)
        \<longrightarrow> fst (authenticateWithWallet_svc env w)
              = Inr (failure (js_or (response_message e) (err_message e)))
          \<and> fst (linkWalletToAccount_svc env w)
              = Inr (failure (js_or (response_message e) (err_message e))))"
proof -
  have connect_sdk:
    "fst (authenticateWithWallet env r w) = Inr (failure (caught e ''Authentication failed''))
     \<and> fst (linkWalletToAccount env r w) = Inr (failure (caught e ''Failed to link wallet''))"
    if "(\<not> connected r \<or> account r = None) \<and> aptosConnect env ''Petra'' = Some e"
    using that sdk_auth_connect_rejects [of r env e w] sdk_link_connect_rejects [of r env e w]
    by blast
  have sign_sdk:
    "fst (authenticateWithWallet env r w) = Inr (failure (caught e ''Authentication failed''))
     \<and> fst (linkWalletToAccount env r w) = Inr (failure (caught e ''Failed to link wallet''))"
    if h: "connected r \<and> (\<exists>a. account r = Some a \<and> address a \<noteq> [])
        \<and> (\<forall>m n. aptosSignMessage env m n = Inl e)"
  proof -
    from h obtain a where a: "connected r" "account r = Some a" "address a \<noteq> []" by blast
    from h have s: "aptosSignMessage env m n = Inl e" for m n by blast
    show ?thesis
      using sdk_auth_sign_rejects [OF a s] sdk_link_sign_rejects [OF a s] by simp
  qed
  have verify_sdk:
    "fst (authenticateWithWallet env r w) = Inr (failure (caught e ''Authentication failed''))
     \<and> fst (linkWalletToAccount env r w) = Inr (failure (caught e ''Failed to link wallet''))"
    if h: "connected r \<and> (\<exists>a. account r = Some a \<and> address a \<noteq> [])
        \<and> (\<forall>m n. \<exists>sr. aptosSignMessage env m n = Inr sr) \<and> (\<forall>req. http_post env req = Inl e)"
  proof -
    from h obtain a where a: "connected r" "account r = Some a" "address a \<noteq> []" by blast
    from h obtain sr1 where s1:
      "aptosSignMessage env (auth_message_text (address a) (date_now env (ticks w)))
         (sdk_nonce env w) = Inr sr1"
      by blast
    from h obtain sr2 where s2:
      "aptosSignMessage env (link_message_text (address a) (date_now env (ticks w)))
         (sdk_nonce env w) = Inr sr2"
      by blast
    from h have p: "http_post env req = Inl e" for req by blast
    show ?thesis
      using sdk_auth_verify_rejects [OF a s1 p] sdk_link_verify_rejects [OF a s2 p] by simp
  qed
  have connect_svc':
    "fst (authenticateWithWallet_svc env w) = Inr (failure (err_message e))
     \<and> fst (linkWalletToAccount_svc env w) = Inr (failure (err_message e))"
    if "\<not> truthy (wallet_address (wallet w)) \<and> svc_connect env = Inl e"
    using that svc_auth_connect_rejects(1) [of w env e] svc_link_connect_rejects(1) [of w env e]
    by blast
  have sign_svc:
    "fst (authenticateWithWallet_svc env w)
       = Inr (failure (js_or (response_message e) (err_message e)))
     \<and> fst (linkWalletToAccount_svc env w)
       = Inr (failure (js_or (response_message e) (err_message e)))"
    if h: "truthy (wallet_address (wallet w)) \<and> (\<forall>m. svc_signMessage env m = Inl e)"
  proof -
    from h obtain a where a: "wallet_address (wallet w) = Some a" "a \<noteq> []"
      by (auto simp: truthy_def split: option.splits)
    from h have s: "svc_signMessage env m = Inl e" for m by blast
    show ?thesis
      using svc_auth_sign_rejects(1) [OF a s] svc_link_sign_rejects [OF a s] by simp
  qed
  have verify_svc:
    "fst (authenticateWithWallet_svc env w)
       = Inr (failure (js_or (response_message e) (err_message e)))
     \<and> fst (linkWalletToAccount_svc env w)
       = Inr (failure (js_or (response_message e) (err_message e)))"
    if h: "truthy (wallet_address (wallet w))
        \<and> (\<forall>m. \<exists>sr. svc_signMessage env m = Inr sr) \<and> (\<forall>req. http_post env req = Inl e)"
  proof -
    from h obtain a where a: "wallet_address (wallet w) = Some a" "a \<noteq> []"
      by (auto simp: truthy_def split: option.splits)
    from h obtain sr1 where s1: "svc_signMessage env (svc_generateAuthMessage env a) = Inr sr1"
      by blast
    from h obtain sr2 where s2:
      "svc_signMessage env (link_message_text a (date_now env (ticks w))) = Inr sr2"
      by blast
    from h have p: "http_post env req = Inl e" for req by blast
    show ?thesis
      using svc_auth_verify_rejects [OF a s1 p] svc_link_verify_rejects [OF a s2 p] by simp
  qed
  have cold_sign_svc:
    "fst (authenticateWithWallet_svc env w)
       = Inr (failure (js_or (response_message e) (err_message e)))
     \<and> fst (linkWalletToAccount_svc env w)
       = Inr (failure (js_or (response_message e) (err_message e)))"
    if h: "\<not> truthy (wallet_address (wallet w)) \<and> (\<exists>acc. svc_connect env = Inr acc)
        \<and> (\<exists>net. svc_getNetwork env = Inr net)
        \<and> (\<exists>addr. svc_getAddress env = Some addr \<and> addr \<noteq> [])
        \<and> (\<forall>m. svc_signMessage env m = Inl e)"
  proof -
    from h obtain acc net addr where c: "\<not> truthy (wallet_address (wallet w))"
      "svc_connect env = Inr acc" "svc_getNetwork env = Inr net"
      "svc_getAddress env = Some addr" "addr \<noteq> []"
      by blast
    from h have s: "svc_signMessage env m = Inl e" for m by blast
    show ?thesis
      using svc_auth_cold_sign_rejects [OF c s] svc_link_cold_sign_rejects [OF c s] by simp
  qed
  have cold_verify_svc:
    "fst (authenticateWithWallet_svc env w)
       = Inr (failure (js_or (response_message e) (err_message e)))
     \<and> fst (linkWalletToAccount_svc env w)
       = Inr (failure (js_or (response_message e) (err_message e)))"
    if h: "\<not> truthy (wallet_address (wallet w)) \<and> (\<exists>acc. svc_connect env = Inr acc)
        \<and> (\<exists>net. svc_getNetwork env = Inr net)
        \<and> (\<exists>addr. svc_getAddress env = Some addr \<and> addr \<noteq> [])
        \<and> (\<forall>m. \<exists>sr. svc_signMessage env m = Inr sr) \<and> (\<forall>req. http_post env req = Inl e)"
  proof -
    from h obtain acc net addr where c: "\<not> truthy (wallet_address (wallet w))"
      "svc_connect env = Inr acc" "svc_getNetwork env = Inr net"
      "svc_getAddress env = Some addr" "addr \<noteq> []"
      by blast
    from h obtain sr1 where s1: "svc_signMessage env (svc_generateAuthMessage env addr) = Inr sr1"
      by blast
    from h obtain sr2 where s2:
      "svc_signMessage env (link_message_text addr (date_now env (ticks w))) = Inr sr2"
      by blast
    from h have p: "http_post env req = Inl e" for req by blast
    show ?thesis
      using svc_auth_cold_verify_rejects [OF c s1 p] svc_link_cold_verify_rejects [OF c s2 p]
      by simp
  qed
  show ?thesis
    apply (intro conjI)
               apply (rule sdk_auth_total)
              apply (rule sdk_link_total)
             apply (rule svc_auth_total)
            apply (rule svc_link_total)
           apply (rule impI, erule connect_sdk)
          apply (rule impI, erule sign_sdk)
         apply (rule impI, erule verify_sdk)
        apply (rule impI, erule connect_svc')
       apply (rule impI, erule sign_svc)
      apply (rule impI, erule verify_svc)
     apply (rule impI, erule cold_sign_svc)
    apply (rule impI, erule cold_verify_svc)
    done
qed

theorem wallet_flows_recover_errors_witness:
  "fst (authenticateWithWallet env_connect_rejects render_not_installed fresh_world)
     = Inr (failure (Some ''Petra wallet is not installed''))
   \<and> fst (linkWalletToAccount env_sign_rejects render_connected fresh_world)
     = Inr (failure (Some ''Failed to link wallet''))
   \<and> fst (authenticateWithWallet env_verify_400 render_connected fresh_world)
     = Inr (failure (Some ''Invalid signature''))
   \<and> fst (authenticateWithWallet_svc env_connect_rejects fresh_world)
     = Inr (failure (Some ''Petra wallet is not installed''))
   \<and> fst (authenticateWithWallet_svc env_sign_rejects connected_world) = Inr (failure None)
   \<and> fst (linkWalletToAccount_svc env_verify_400 connected_world)
     = Inr (failure (Some ''Invalid signature''))
   \<and> fst (linkWalletToAccount_svc env_sign_rejects fresh_world) = Inr (failure None)
   \<and> fst (authenticateWithWallet_svc env_verify_400 fresh_world)
     = Inr (failure (Some ''Invalid signature''))"
proof -
  have service: "\<exists>acc. svc_connect env_sign_rejects = Inr acc"
    "\<exists>net. svc_getNetwork env_sign_rejects = Inr net"
    "\<exists>addr. svc_getAddress env_sign_rejects = Some addr \<and> addr \<noteq> []"
    "\<exists>acc. svc_connect env_verify_400 = Inr acc"
    "\<exists>net. svc_getNetwork env_verify_400 = Inr net"
    "\<exists>addr. svc_getAddress env_verify_400 = Some addr \<and> addr \<noteq> []"
    by (simp_all add: env_sign_rejects_def env_verify_400_def example_env_def)
  have cold: "\<not> connected render_not_installed"
    "\<not> truthy (wallet_address (wallet fresh_world))"
    by (simp_all add: render_not_installed_def fresh_world_def fresh_wallet_def truthy_def)
  have warm: "connected render_connected"
    "\<exists>a. account render_connected = Some a \<and> address a \<noteq> []"
    "truthy (wallet_address (wallet connected_world))"
    by (simp_all add: render_connected_def example_account_def connected_world_def
        fresh_world_def fresh_wallet_def truthy_def)
  have connect_rejected: "aptosConnect env_connect_rejects ''Petra'' = Some not_installed_error"
    "svc_connect env_connect_rejects = Inl not_installed_error"
    by (simp_all add: env_connect_rejects_def)
  have sign_rejected: "\<forall>m n. aptosSignMessage env_sign_rejects m n = Inl bare_error"
    "\<forall>m. svc_signMessage env_sign_rejects m = Inl bare_error"
    by (simp_all add: env_sign_rejects_def)
  have verify_rejected:
    "\<forall>m n. \<exists>sr. aptosSignMessage env_verify_400 m n = Inr sr"
    "\<forall>m. \<exists>sr. svc_signMessage env_verify_400 m = Inr sr"
    "\<forall>req. http_post env_verify_400 req = Inl (http_error 400 ''Invalid signature'')"
    by (simp_all add: env_verify_400_def example_env_def)
  have messages:
    "caught not_installed_error ''Authentication failed'' = Some ''Petra wallet is not installed''"
    "err_message not_installed_error = Some ''Petra wallet is not installed''"
    "caught bare_error ''Failed to link wallet'' = Some ''Failed to link wallet''"
    "js_or (response_message bare_error) (err_message bare_error) = None"
    "caught (http_error 400 ''Invalid signature'') ''Authentication failed'' = Some ''Invalid signature''"
    "js_or (response_message (http_error 400 ''Invalid signature''))
       (err_message (http_error 400 ''Invalid signature'')) = Some ''Invalid signature''"
    by (simp_all add: not_installed_error_def bare_error_def http_error_def new_Error_def
        response_message_def js_or_def or_else_def truthy_def)
  show ?thesis
    using
      wallet_flows_recover_errors [where env = env_connect_rejects and r = render_not_installed
        and w = fresh_world and e = not_installed_error]
      wallet_flows_recover_errors [where env = env_sign_rejects and r = render_connected
        and w = fresh_world and e = bare_error]
      wallet_flows_recover_errors [where env = env_sign_rejects and r = render_connected
        and w = connected_world and e = bare_error]
      wallet_flows_recover_errors [where env = env_verify_400 and r = render_connected
        and w = fresh_world and e = "http_error 400 ''Invalid signature''"]
      wallet_flows_recover_errors [where env = env_verify_400 and r = render_connected
        and w = connected_world and e = "http_error 400 ''Invalid signature''"]
      cold warm service connect_rejected sign_rejected verify_rejected messages
    by simp
qed

theorem service_flow_error_absent_counterexample:
  "fst (authenticateWithWallet_svc env_sign_rejects connected_world)
     = Inr \<lparr>success = False, token = None, error = None\<rparr>"
proof -
  have a: "wallet_address (wallet connected_world) = Some ''0xABC''" "''0xABC'' \<noteq> []"
    by (simp_all add: connected_world_def fresh_world_def fresh_wallet_def)
  have s: "svc_signMessage env_sign_rejects (svc_generateAuthMessage env_sign_rejects ''0xABC'')
             = Inl bare_error"
    by (simp add: env_sign_rejects_def)
  have m: "js_or (response_message bare_error) (err_message bare_error) = None"
    by (simp add: bare_error_def response_message_def js_or_def truthy_def)
  show ?thesis
    using svc_auth_sign_rejects(1) [OF a s] m by simp
qed

text \<open>
  C2. \<open>authenticateWithWallet\<close> does not check whether the provider is
  installed. In the SDK-backed context, from a render without an account (as when the provider
  is not installed), it first invokes the provider's connect; if that is rejected the result
  is a failure with the message drawn from the rejection, if it resolves the result is
  \<open>{success: false, error: 'No wallet connected'}\<close> after the 500 ms wait; sign and
  verify are not reached. In the service-backed context, without an address, it invokes
  \<open>walletService.connect\<close> and, when that is rejected, returns a failure with the
  rejection's message, the store untouched.
\<close>

theorem unconnected_authenticate_connects_first:
  "(account r = None \<longrightarrow>
      authenticateWithWallet env r w =
        (case aptosConnect env ''Petra'' of
           None \<Rightarrow> (Inr (failure (Some ''No wallet connected'')),
                    w\<lparr>trace := trace w @ [AptosConnect ''Petra'', Delay 500]\<rparr>)
         | Some e \<Rightarrow> (Inr (failure (caught e ''Authentication failed'')),
                      w\<lparr>trace := trace w @ [AptosConnect ''Petra'',
                                              ConsoleError ''Failed to connect wallet:'' e,
                                              ConsoleError ''Wallet authentication failed:'' e]\<rparr>)))
   \<and> (\<not> truthy (wallet_address (wallet w)) \<and> svc_connect env = Inl e' \<longrightarrow>
        fst (authenticateWithWallet_svc env w) = Inr (failure (err_message e'))
        \<and> trace (snd (authenticateWithWallet_svc env w)) = trace w @ [ServiceConnect]
        \<and> localStorage (snd (authenticateWithWallet_svc env w)) = localStorage w)"
  using sdk_auth_cold [of r env w] svc_auth_connect_rejects [of w env e'] by blast

theorem unconnected_authenticate_connects_first_witness:
  "account render_not_installed = None
   \<and> authenticateWithWallet env_connect_rejects render_not_installed fresh_world =
       (Inr (failure (Some ''Petra wallet is not installed'')),
        fresh_world\<lparr>trace := [AptosConnect ''Petra'',
                                ConsoleError ''Failed to connect wallet:'' not_installed_error,
                                ConsoleError ''Wallet authentication failed:'' not_installed_error]\<rparr>)
   \<and> fst (authenticateWithWallet_svc env_connect_rejects fresh_world)
       = Inr (failure (Some ''Petra wallet is not installed''))
   \<and> trace (snd (authenticateWithWallet_svc env_connect_rejects fresh_world)) = [ServiceConnect]"
proof -
  have cold: "account render_not_installed = None"
    "\<not> truthy (wallet_address (wallet fresh_world))" "trace fresh_world = []"
    by (simp_all add: render_not_installed_def fresh_world_def fresh_wallet_def truthy_def)
  have rejected: "aptosConnect env_connect_rejects ''Petra'' = Some not_installed_error"
    "svc_connect env_connect_rejects = Inl not_installed_error"
    by (simp_all add: env_connect_rejects_def)
  have messages:
    "caught not_installed_error ''Authentication failed'' = Some ''Petra wallet is not installed''"
    "err_message not_installed_error = Some ''Petra wallet is not installed''"
    by (simp_all add: not_installed_error_def new_Error_def response_message_def js_or_def
        or_else_def truthy_def)
  show ?thesis
    using unconnected_authenticate_connects_first
      [where r = render_not_installed and env = env_connect_rejects and w = fresh_world
         and e' = not_installed_error]
      cold rejected messages
    by simp
qed

theorem not_installed_still_connects_counterexample:
  "\<not> isPetraInstalled_sdk render_not_installed
   \<and> trace (snd (authenticateWithWallet env_connect_rejects render_not_installed fresh_world))
       = [AptosConnect ''Petra'',
          ConsoleError ''Failed to connect wallet:'' not_installed_error,
          ConsoleError ''Wallet authentication failed:'' not_installed_error]
   \<and> fst (authenticateWithWallet env_connect_rejects render_not_installed fresh_world)
       = Inr \<lparr>success = False, token = None, error = Some ''Petra wallet is not installed''\<rparr>"
proof -
  have cold: "account render_not_installed = None" "trace fresh_world = []"
    "\<not> isPetraInstalled_sdk render_not_installed"
    by (simp_all add: render_not_installed_def fresh_world_def isPetraInstalled_sdk_def)
  have rejected: "aptosConnect env_connect_rejects ''Petra'' = Some not_installed_error"
    by (simp add: env_connect_rejects_def)
  have message:
    "caught not_installed_error ''Authentication failed'' = Some ''Petra wallet is not installed''"
    by (simp add: not_installed_error_def new_Error_def response_message_def js_or_def
        or_else_def truthy_def)
  show ?thesis
    using sdk_auth_cold [OF cold(1), of env_connect_rejects fresh_world] cold rejected message
    by simp
qed

text \<open>
  C3. For every wallet address, the login challenge and the link challenge built for that
  address are different strings. The login message is ``Sign this message to authenticate with
  LifeVault.'' followed by the address, the timestamp and the note on gas fees; the link
  message is ``Link this wallet to your LifeVault account.'' followed by the address and the
  timestamp. These are the messages that \<open>authenticateWithWallet\<close> and
  \<open>linkWalletToAccount\<close> hand to the wallet to sign, in the SDK-backed context and, for
  the link message, in the service-backed one.
\<close>

theorem login_link_challenges_distinct:
  "fst (generateAuthMessage env addr w) =
     Inr (''Sign this message to authenticate with LifeVault.'' @ [CHR 0x0A, CHR 0x0A]
          @ ''Wallet: '' @ addr @ [CHR 0x0A]
          @ ''Timestamp: '' @ show_nat (date_now env (ticks w)) @ [CHR 0x0A, CHR 0x0A]
          @ ''This signature will not trigger any blockchain transaction or cost any gas fees.'')
   \<and> fst (generateLinkMessage env addr w') =
     Inr (''Link this wallet to your LifeVault account.'' @ [CHR 0x0A, CHR 0x0A]
          @ ''Wallet: '' @ addr @ [CHR 0x0A]
          @ ''Timestamp: '' @ show_nat (date_now env (ticks w')))
   \<and> fst (generateAuthMessage env addr w) \<noteq> fst (generateLinkMessage env addr w')
   \<and> auth_message_text addr t1 \<noteq> link_message_text addr t2
   \<and> take 33 (auth_message_text addr t1) = ''Sign this message to authenticate''
   \<and> take 43 (link_message_text addr t2) = ''Link this wallet to your LifeVault account.''
   \<and> (connected r \<and> account r = Some a \<and> address a \<noteq> []
      \<longrightarrow> (\<exists>rest. trace (snd (authenticateWithWallet env r w)) = trace w @
                   AptosSignMessage (auth_message_text (address a) (date_now env (ticks w)))
                     (sdk_nonce env w) # rest)
        \<and> (\<exists>rest. trace (snd (linkWalletToAccount env r w)) = trace w @
                   AptosSignMessage (link_message_text (address a) (date_now env (ticks w)))
                     (sdk_nonce env w) # rest))
   \<and> (wallet_address (wallet w) = Some addr \<and> addr \<noteq> []
      \<longrightarrow> (\<exists>rest. trace (snd (linkWalletToAccount_svc env w)) = trace w @
                   ServiceSignMessage (link_message_text addr (date_now env (ticks w))) # rest))"
proof (intro conjI impI)
  show "fst (generateAuthMessage env addr w) =
     Inr (''Sign this message to authenticate with LifeVault.'' @ [CHR 0x0A, CHR 0x0A]
          @ ''Wallet: '' @ addr @ [CHR 0x0A]
          @ ''Timestamp: '' @ show_nat (date_now env (ticks w)) @ [CHR 0x0A, CHR 0x0A]
          @ ''This signature will not trigger any blockchain transaction or cost any gas fees.'')"
    by (simp add: generateAuthMessage_def auth_message_text_def prog_defs)
  show "fst (generateLinkMessage env addr w') =
     Inr (''Link this wallet to your LifeVault account.'' @ [CHR 0x0A, CHR 0x0A]
          @ ''Wallet: '' @ addr @ [CHR 0x0A]
          @ ''Timestamp: '' @ show_nat (date_now env (ticks w')))"
    by (simp add: generateLinkMessage_def link_message_text_def prog_defs)
  show "fst (generateAuthMessage env addr w) \<noteq> fst (generateLinkMessage env addr w')"
    by (simp add: generateAuthMessage_def generateLinkMessage_def auth_message_text_def
        link_message_text_def prog_defs)
  show "auth_message_text addr t1 \<noteq> link_message_text addr t2"
    by (simp add: auth_message_text_def link_message_text_def)
  show "take 33 (auth_message_text addr t1) = ''Sign this message to authenticate''"
    by (simp add: auth_message_text_def)
  show "take 43 (link_message_text addr t2) = ''Link this wallet to your LifeVault account.''"
    by (simp add: link_message_text_def)
next
  assume h: "connected r \<and> account r = Some a \<and> address a \<noteq> []"
  then have c: "connected r" "account r = Some a" "address a \<noteq> []" by simp_all
  show "\<exists>rest. trace (snd (authenticateWithWallet env r w)) = trace w @
                   AptosSignMessage (auth_message_text (address a) (date_now env (ticks w)))
                     (sdk_nonce env w) # rest"
    by (rule sdk_auth_signs_login_text [OF c])
  show "\<exists>rest. trace (snd (linkWalletToAccount env r w)) = trace w @
                   AptosSignMessage (link_message_text (address a) (date_now env (ticks w)))
                     (sdk_nonce env w) # rest"
    by (rule sdk_link_signs_link_text [OF c])
next
  assume "wallet_address (wallet w) = Some addr \<and> addr \<noteq> []"
  then have c: "wallet_address (wallet w) = Some addr" "addr \<noteq> []" by simp_all
  show "\<exists>rest. trace (snd (linkWalletToAccount_svc env w)) = trace w @
                   ServiceSignMessage (link_message_text addr (date_now env (ticks w))) # rest"
    by (rule svc_link_signs_link_text [OF c])
qed

theorem login_link_challenges_distinct_witness:
  "fst (generateAuthMessage example_env ''0xABC'' fresh_world)
     \<noteq> fst (generateLinkMessage example_env ''0xABC'' fresh_world)
   \<and> (\<exists>rest. trace (snd (authenticateWithWallet example_env render_connected fresh_world)) =
               AptosSignMessage (auth_message_text ''0xABC'' 1000) (show_nat 1001 @ ''k3j9x'') # rest)
   \<and> (\<exists>rest. trace (snd (linkWalletToAccount example_env render_connected fresh_world)) =
               AptosSignMessage (link_message_text ''0xABC'' 1000) (show_nat 1001 @ ''k3j9x'') # rest)
   \<and> (\<exists>rest. trace (snd (linkWalletToAccount_svc example_env connected_world)) =
               ServiceSignMessage (link_message_text ''0xABC'' 1000) # rest)"
proof -
  have sdk: "connected render_connected" "account render_connected = Some example_account"
    "address example_account = ''0xABC''"
    by (simp_all add: render_connected_def example_account_def)
  have svc: "wallet_address (wallet connected_world) = Some ''0xABC''"
    by (simp add: connected_world_def fresh_world_def fresh_wallet_def)
  have start: "ticks fresh_world = 0" "trace fresh_world = []"
    "ticks connected_world = 0" "trace connected_world = []"
    by (simp_all add: connected_world_def fresh_world_def)
  have clock: "date_now example_env 0 = 1000" "date_now example_env (Suc 0) = 1001"
    "math_random example_env = ''k3j9x''"
    by (simp_all add: example_env_def)
  show ?thesis
    using login_link_challenges_distinct
      [where env = example_env and addr = "''0xABC''" and w = fresh_world and w' = fresh_world
         and r = render_connected and a = example_account]
      login_link_challenges_distinct
      [where env = example_env and addr = "''0xABC''" and w = connected_world
         and w' = fresh_world and r = render_connected and a = example_account]
      sdk svc start clock
    by simp
qed

theorem link_preamble_differs_counterexample:
  "fst (generateLinkMessage example_env ''0xABC'' fresh_world) =
     Inr (''Link this wallet to your LifeVault account.'' @ [CHR 0x0A, CHR 0x0A]
          @ ''Wallet: 0xABC'' @ [CHR 0x0A] @ ''Timestamp: 1000'')
   \<and> \<not> contains_text (link_message_text ''0xABC'' 1000) ''Link this wallet to your account''"
proof -
  have start: "ticks fresh_world = 0" "date_now example_env 0 = 1000"
    by (simp_all add: fresh_world_def example_env_def)
  have built: "fst (generateLinkMessage example_env ''0xABC'' fresh_world)
                 = Inr (link_message_text ''0xABC'' 1000)"
    by (simp add: generateLinkMessage_def prog_defs start)
  have absent:
    "\<not> contains_text (link_message_text ''0xABC'' 1000) ''Link this wallet to your account''"
    by (simp add: link_message_text_def show_nat_1000)
  show ?thesis
    using built absent by (simp add: link_message_text_def show_nat_1000)
qed

text \<open>
  C4. When the wallet is connected, every signing request succeeds and the backend answers
  every verify request with a body \<open>{data: {token: t}}\<close>, \<open>authenticateWithWallet\<close> returns
  \<open>{success: true, token: t}\<close> and afterwards the store holds \<open>t\<close> under the key
  \<open>token\<close>, its other keys unchanged. This holds for the SDK-backed context and for the
  service-backed one.
\<close>

theorem authenticate_success_stores_token:
  "(connected r \<and> account r = Some a \<and> address a \<noteq> []
      \<and> (\<forall>m n. \<exists>sr. aptosSignMessage env m n = Inr sr)
      \<and> (\<forall>req. http_post env req = Inr (AxiosResponse (Some (ResponseBody (Some (TokenBody (Some t)))))))
    \<longrightarrow> fst (authenticateWithWallet env r w) = Inr \<lparr>success = True, token = Some t, error = None\<rparr>
      \<and> localStorage (snd (authenticateWithWallet env r w)) = (localStorage w)(''token'' \<mapsto> t))
   \<and> (isConnected (wallet w) \<and> wallet_address (wallet w) = Some addr \<and> addr \<noteq> []
      \<and> (\<forall>m. \<exists>sr. svc_signMessage env m = Inr sr)
      \<and> (\<forall>req. http_post env req = Inr (AxiosResponse (Some (ResponseBody (Some (TokenBody (Some t)))))))
    \<longrightarrow> fst (authenticateWithWallet_svc env w) = Inr \<lparr>success = True, token = Some t, error = None\<rparr>
      \<and> localStorage (snd (authenticateWithWallet_svc env w)) = (localStorage w)(''token'' \<mapsto> t))"
proof (intro conjI impI)
  assume h: "connected r \<and> account r = Some a \<and> address a \<noteq> []
      \<and> (\<forall>m n. \<exists>sr. aptosSignMessage env m n = Inr sr)
      \<and> (\<forall>req. http_post env req = Inr (AxiosResponse (Some (ResponseBody (Some (TokenBody (Some t)))))))"
  then obtain sr where sr:
    "aptosSignMessage env (auth_message_text (address a) (date_now env (ticks w))) (sdk_nonce env w)
       = Inr sr"
    by blast
  from h have post:
    "http_post env (wallet_request w ''/auth/wallet'' (address a) (Some (publicKey a)) sr)
       = Inr (AxiosResponse (Some (ResponseBody (Some (TokenBody (Some t))))))"
    by blast
  from h have c: "connected r" "account r = Some a" "address a \<noteq> []" by simp_all
  show "fst (authenticateWithWallet env r w) = Inr \<lparr>success = True, token = Some t, error = None\<rparr>"
    by (rule sdk_auth_success(1) [OF c sr post])
  show "localStorage (snd (authenticateWithWallet env r w)) = (localStorage w)(''token'' \<mapsto> t)"
    using sdk_auth_success(2) [OF c sr post] by (simp add: to_String_def)
next
  assume h: "isConnected (wallet w) \<and> wallet_address (wallet w) = Some addr \<and> addr \<noteq> []
      \<and> (\<forall>m. \<exists>sr. svc_signMessage env m = Inr sr)
      \<and> (\<forall>req. http_post env req = Inr (AxiosResponse (Some (ResponseBody (Some (TokenBody (Some t)))))))"
  then obtain sr where sr: "svc_signMessage env (svc_generateAuthMessage env addr) = Inr sr"
    by blast
  from h have post:
    "http_post env (wallet_request w ''/auth/wallet'' addr
        (js_or (wallet_publicKey (wallet w)) (svc_getPublicKey env)) sr)
       = Inr (AxiosResponse (Some (ResponseBody (Some (TokenBody (Some t))))))"
    by blast
  from h have c: "wallet_address (wallet w) = Some addr" "addr \<noteq> []" by simp_all
  show "fst (authenticateWithWallet_svc env w) = Inr \<lparr>success = True, token = Some t, error = None\<rparr>"
    by (rule svc_auth_success(1) [OF c sr post])
  show "localStorage (snd (authenticateWithWallet_svc env w)) = (localStorage w)(''token'' \<mapsto> t)"
    using svc_auth_success(2) [OF c sr post] by (simp add: to_String_def)
qed

theorem authenticate_success_stores_token_witness:
  "fst (authenticateWithWallet example_env render_connected fresh_world)
     = Inr \<lparr>success = True, token = Some ''tok123'', error = None\<rparr>
   \<and> localStorage (snd (authenticateWithWallet example_env render_connected fresh_world)) ''token''
     = Some ''tok123''
   \<and> fst (authenticateWithWallet_svc example_env connected_world)
     = Inr \<lparr>success = True, token = Some ''tok123'', error = None\<rparr>
   \<and> localStorage (snd (authenticateWithWallet_svc example_env connected_world)) ''token''
     = Some ''tok123''"
proof -
  have sdk: "connected render_connected" "account render_connected = Some example_account"
    "address example_account \<noteq> []"
    by (simp_all add: render_connected_def example_account_def)
  have svc: "isConnected (wallet connected_world)"
    "wallet_address (wallet connected_world) = Some ''0xABC''"
    by (simp_all add: connected_world_def fresh_world_def fresh_wallet_def)
  have signs: "\<forall>m n. \<exists>sr. aptosSignMessage example_env m n = Inr sr"
    "\<forall>m. \<exists>sr. svc_signMessage example_env m = Inr sr"
    by (simp_all add: example_env_def)
  have verifies: "\<forall>req. http_post example_env req
      = Inr (AxiosResponse (Some (ResponseBody (Some (TokenBody (Some ''tok123''))))))"
    by (simp add: example_env_def token_response_def)
  show ?thesis
    using authenticate_success_stores_token
      [where r = render_connected and a = example_account and env = example_env
         and t = "''tok123''" and w = fresh_world and addr = "''0xABC''"]
      authenticate_success_stores_token
      [where r = render_connected and a = example_account and env = example_env
         and t = "''tok123''" and w = connected_world and addr = "''0xABC''"]
      sdk svc signs verifies
    by simp
qed

text \<open>
  C5. With or without a stored token, \<open>linkWalletToAccount\<close> returns
  \<open>{success: true}\<close> and leaves the store as it was whenever sign and the backend call
  succeed: in the SDK-backed context from a connected wallet, in the service-backed context
  from a connected wallet and also from no wallet at all, where it drives connect, sign and
  verify in this order. The link flow never stores a token. In every run the store is either
  unchanged, or it has lost the key \<open>token\<close>, which happens only when the backend call is
  rejected with status 401 and the response interceptor removes it.
\<close>

theorem link_flow_token_frame:
  "(connected r \<and> account r = Some a \<and> address a \<noteq> []
      \<and> (\<forall>m n. \<exists>sr. aptosSignMessage env m n = Inr sr) \<and> (\<forall>req. \<exists>resp. http_post env req = Inr resp)
    \<longrightarrow> fst (linkWalletToAccount env r w) = Inr \<lparr>success = True, token = None, error = None\<rparr>
      \<and> localStorage (snd (linkWalletToAccount env r w)) = localStorage w)
   \<and> (wallet_address (wallet w) = Some addr \<and> addr \<noteq> []
      \<and> (\<forall>m. \<exists>sr. svc_signMessage env m = Inr sr) \<and> (\<forall>req. \<exists>resp. http_post env req = Inr resp)
    \<longrightarrow> fst (linkWalletToAccount_svc env w) = Inr \<lparr>success = True, token = None, error = None\<rparr>
      \<and> localStorage (snd (linkWalletToAccount_svc env w)) = localStorage w)
   \<and> (\<not> truthy (wallet_address (wallet w)) \<and> (\<exists>acc. svc_connect env = Inr acc)
      \<and> (\<exists>net. svc_getNetwork env = Inr net) \<and> svc_getAddress env = Some addr \<and> addr \<noteq> []
      \<and> (\<forall>m. \<exists>sr. svc_signMessage env m = Inr sr) \<and> (\<forall>req. \<exists>resp. http_post env req = Inr resp)
    \<longrightarrow> fst (linkWalletToAccount_svc env w) = Inr \<lparr>success = True, token = None, error = None\<rparr>
      \<and> localStorage (snd (linkWalletToAccount_svc env w)) = localStorage w
      \<and> (\<exists>msg req. trace (snd (linkWalletToAccount_svc env w))
                      = trace w @ [ServiceConnect, ServiceGetNetwork, ServiceSignMessage msg,
                                   HttpPost req]
           \<and> url req = ''/auth/link-wallet'' \<and> body_address (payload req) = addr))
   \<and> (localStorage (snd (linkWalletToAccount env r w)) = localStorage w
       \<or> ((\<exists>req e. http_post env req = Inl e \<and> response_status e = Some 401)
           \<and> localStorage (snd (linkWalletToAccount env r w)) = (localStorage w)(''token'' := None)))
   \<and> (localStorage (snd (linkWalletToAccount_svc env w)) = localStorage w
       \<or> ((\<exists>req e. http_post env req = Inl e \<and> response_status e = Some 401)
           \<and> localStorage (snd (linkWalletToAccount_svc env w))
               = (localStorage w)(''token'' := None)))"
proof (intro conjI impI)
  assume h: "connected r \<and> account r = Some a \<and> address a \<noteq> []
      \<and> (\<forall>m n. \<exists>sr. aptosSignMessage env m n = Inr sr) \<and> (\<forall>req. \<exists>resp. http_post env req = Inr resp)"
  then have c: "connected r" "account r = Some a" "address a \<noteq> []" by simp_all
  from h obtain sr where sr:
    "aptosSignMessage env (link_message_text (address a) (date_now env (ticks w)))
       (sdk_nonce env w) = Inr sr"
    by blast
  from h obtain resp where resp:
    "http_post env (wallet_request w ''/auth/link-wallet'' (address a) (Some (publicKey a)) sr)
       = Inr resp"
    by blast
  show "fst (linkWalletToAccount env r w) = Inr \<lparr>success = True, token = None, error = None\<rparr>"
    by (rule sdk_link_success(1) [OF c sr resp])
  show "localStorage (snd (linkWalletToAccount env r w)) = localStorage w"
    by (rule sdk_link_success(2) [OF c sr resp])
next
  assume h: "wallet_address (wallet w) = Some addr \<and> addr \<noteq> []
      \<and> (\<forall>m. \<exists>sr. svc_signMessage env m = Inr sr) \<and> (\<forall>req. \<exists>resp. http_post env req = Inr resp)"
  then have c: "wallet_address (wallet w) = Some addr" "addr \<noteq> []" by simp_all
  from h obtain sr where sr:
    "svc_signMessage env (link_message_text addr (date_now env (ticks w))) = Inr sr"
    by blast
  from h obtain resp where resp:
    "http_post env (wallet_request w ''/auth/link-wallet'' addr
       (js_or (wallet_publicKey (wallet w)) (svc_getPublicKey env)) sr) = Inr resp"
    by blast
  show "fst (linkWalletToAccount_svc env w) = Inr \<lparr>success = True, token = None, error = None\<rparr>"
    by (rule svc_link_success(1) [OF c sr resp])
  show "localStorage (snd (linkWalletToAccount_svc env w)) = localStorage w"
    by (rule svc_link_success(2) [OF c sr resp])
next
  assume h: "\<not> truthy (wallet_address (wallet w)) \<and> (\<exists>acc. svc_connect env = Inr acc)
      \<and> (\<exists>net. svc_getNetwork env = Inr net) \<and> svc_getAddress env = Some addr \<and> addr \<noteq> []
      \<and> (\<forall>m. \<exists>sr. svc_signMessage env m = Inr sr) \<and> (\<forall>req. \<exists>resp. http_post env req = Inr resp)"
  then obtain acc net where c: "\<not> truthy (wallet_address (wallet w))"
    "svc_connect env = Inr acc" "svc_getNetwork env = Inr net"
    "svc_getAddress env = Some addr" "addr \<noteq> []"
    by blast
  from h obtain sr where sr:
    "svc_signMessage env (link_message_text addr (date_now env (ticks w))) = Inr sr"
    by blast
  from h obtain resp where resp:
    "http_post env (wallet_request w ''/auth/link-wallet'' addr
       (js_or (wallet_publicKey (wallet w)) (svc_getPublicKey env)) sr) = Inr resp"
    by blast
  show "fst (linkWalletToAccount_svc env w) = Inr \<lparr>success = True, token = None, error = None\<rparr>"
    by (rule svc_link_cold_success(1) [OF c sr resp])
  show "localStorage (snd (linkWalletToAccount_svc env w)) = localStorage w"
    by (rule svc_link_cold_success(2) [OF c sr resp])
  show "\<exists>msg req. trace (snd (linkWalletToAccount_svc env w))
                      = trace w @ [ServiceConnect, ServiceGetNetwork, ServiceSignMessage msg,
                                   HttpPost req]
           \<and> url req = ''/auth/link-wallet'' \<and> body_address (payload req) = addr"
    using svc_link_cold_success(3) [OF c sr resp] by simp
next
  show "localStorage (snd (linkWalletToAccount env r w)) = localStorage w
       \<or> ((\<exists>req e. http_post env req = Inl e \<and> response_status e = Some 401)
           \<and> localStorage (snd (linkWalletToAccount env r w)) = (localStorage w)(''token'' := None))"
    by (rule sdk_link_frame)
next
  show "localStorage (snd (linkWalletToAccount_svc env w)) = localStorage w
       \<or> ((\<exists>req e. http_post env req = Inl e \<and> response_status e = Some 401)
           \<and> localStorage (snd (linkWalletToAccount_svc env w))
               = (localStorage w)(''token'' := None))"
    by (rule svc_link_frame)
qed

theorem link_flow_token_frame_witness:
  "localStorage logged_in_world ''token'' = Some ''tok-old''
   \<and> fst (linkWalletToAccount example_env render_connected logged_in_world)
       = Inr \<lparr>success = True, token = None, error = None\<rparr>
   \<and> localStorage (snd (linkWalletToAccount example_env render_connected logged_in_world)) ''token''
       = Some ''tok-old''
   \<and> fst (linkWalletToAccount_svc example_env logged_in_world)
       = Inr \<lparr>success = True, token = None, error = None\<rparr>
   \<and> localStorage (snd (linkWalletToAccount_svc example_env logged_in_world)) ''token''
       = Some ''tok-old''
   \<and> localStorage fresh_world ''token'' = None
   \<and> fst (linkWalletToAccount_svc example_env fresh_world)
       = Inr \<lparr>success = True, token = None, error = None\<rparr>
   \<and> localStorage (snd (linkWalletToAccount_svc example_env fresh_world)) ''token'' = None"
proof -
  have stores: "localStorage logged_in_world ''token'' = Some ''tok-old''"
    "localStorage fresh_world ''token'' = None"
    "wallet_address (wallet logged_in_world) = Some ''0xABC''"
    by (simp_all add: logged_in_world_def connected_world_def fresh_world_def fresh_wallet_def)
  have sdk: "connected render_connected" "account render_connected = Some example_account"
    "address example_account \<noteq> []"
    by (simp_all add: render_connected_def example_account_def)
  have cold: "\<not> truthy (wallet_address (wallet fresh_world))"
    by (simp add: fresh_world_def fresh_wallet_def truthy_def)
  have service: "\<exists>acc. svc_connect example_env = Inr acc"
    "\<exists>net. svc_getNetwork example_env = Inr net" "svc_getAddress example_env = Some ''0xABC''"
    by (simp_all add: example_env_def)
  have signs: "\<forall>m n. \<exists>sr. aptosSignMessage example_env m n = Inr sr"
    "\<forall>m. \<exists>sr. svc_signMessage example_env m = Inr sr"
    by (simp_all add: example_env_def)
  have verifies: "\<forall>req. \<exists>resp. http_post example_env req = Inr resp"
    by (simp add: example_env_def)
  show ?thesis
    using link_flow_token_frame
      [where r = render_connected and a = example_account and env = example_env
         and w = logged_in_world and addr = "''0xABC''"]
      link_flow_token_frame
      [where r = render_connected and a = example_account and env = example_env
         and w = fresh_world and addr = "''0xABC''"]
      stores sdk cold service signs verifies
    by simp
qed

theorem link_unauthorized_removes_token_counterexample:
  "localStorage logged_in_world ''token'' = Some ''tok-old''
   \<and> fst (linkWalletToAccount env_verify_401 render_connected logged_in_world)
       = Inr \<lparr>success = False, token = None, error = Some ''Token expired''\<rparr>
   \<and> localStorage (snd (linkWalletToAccount env_verify_401 render_connected logged_in_world)) ''token''
       = None"
proof -
  have stored: "localStorage logged_in_world ''token'' = Some ''tok-old''"
    by (simp add: logged_in_world_def)
  have sdk: "connected render_connected" "account render_connected = Some example_account"
    "address example_account \<noteq> []"
    by (simp_all add: render_connected_def example_account_def)
  have sign: "aptosSignMessage env_verify_401 m n = Inr (example_signature m n)" for m n
    by (simp add: env_verify_401_def example_env_def)
  have rejected: "http_post env_verify_401 req = Inl (http_error 401 ''Token expired'')" for req
    by (simp add: env_verify_401_def)
  have message: "caught (http_error 401 ''Token expired'') ''Failed to link wallet''
                   = Some ''Token expired''"
    "response_status (http_error 401 ''Token expired'') = Some 401"
    by (simp_all add: http_error_def response_message_def response_status_def js_or_def
        or_else_def truthy_def)
  show ?thesis
    using sdk_link_verify_rejects [OF sdk sign rejected, of logged_in_world]
      sdk_link_verify_rejects_store [OF sdk sign rejected, of logged_in_world] stored message
    by simp
qed

text \<open>
  C6. \<open>disconnect\<close> forwards to the provider's disconnect. When that resolves
  on both of two calls in a row, neither call fails; in the service-backed context the wallet
  state after each call has \<open>isConnected\<close> false and \<open>address\<close> and \<open>publicKey\<close>
  null, and the second call leaves the wallet state as the first left it. When the provider's
  disconnect is rejected, the rejection reaches the caller: the SDK-backed \<open>disconnect\<close>
  logs and rethrows it, and the service-backed one does not reset the wallet state.
\<close>

theorem disconnect_forwards_to_provider:
  "(aptosDisconnect env = None \<and> aptosDisconnect env' = None
      \<longrightarrow> fst (disconnect env w) = Inr ()
        \<and> fst (disconnect env' (snd (disconnect env w))) = Inr ())
   \<and> (aptosDisconnect env = Some e \<longrightarrow> fst (disconnect env w) = Inl e)
   \<and> (svc_disconnect env = None \<and> svc_disconnect env' = None
      \<longrightarrow> fst (disconnect_svc env w) = Inr ()
        \<and> wallet (snd (disconnect_svc env w))
            = (wallet w)\<lparr>isConnected := False, wallet_address := None, wallet_publicKey := None\<rparr>
        \<and> fst (disconnect_svc env' (snd (disconnect_svc env w))) = Inr ()
        \<and> wallet (snd (disconnect_svc env' (snd (disconnect_svc env w))))
            = wallet (snd (disconnect_svc env w)))
   \<and> (svc_disconnect env = Some e
      \<longrightarrow> fst (disconnect_svc env w) = Inl e
        \<and> snd (disconnect_svc env w)
            = fire env DuringDisconnect (w\<lparr>trace := trace w @ [ServiceDisconnect]\<rparr>))"
proof (intro conjI impI)
  assume "aptosDisconnect env = None \<and> aptosDisconnect env' = None"
  then have d: "aptosDisconnect env = None" "aptosDisconnect env' = None" by simp_all
  show "fst (disconnect env w) = Inr ()"
    by (simp add: disconnect_resolves [OF d(1)])
  show "fst (disconnect env' (snd (disconnect env w))) = Inr ()"
    by (simp add: disconnect_resolves [OF d(2)])
next
  assume "aptosDisconnect env = Some e"
  then show "fst (disconnect env w) = Inl e"
    by (simp add: disconnect_rejects)
next
  assume "svc_disconnect env = None \<and> svc_disconnect env' = None"
  then have d: "svc_disconnect env = None" "svc_disconnect env' = None" by simp_all
  show "fst (disconnect_svc env w) = Inr ()"
    by (rule disconnect_svc_resolves(1) [OF d(1)])
  show "wallet (snd (disconnect_svc env w))
          = (wallet w)\<lparr>isConnected := False, wallet_address := None, wallet_publicKey := None\<rparr>"
    by (rule disconnect_svc_resolves(2) [OF d(1)])
  show "fst (disconnect_svc env' (snd (disconnect_svc env w))) = Inr ()"
    by (rule disconnect_svc_resolves(1) [OF d(2)])
  show "wallet (snd (disconnect_svc env' (snd (disconnect_svc env w))))
          = wallet (snd (disconnect_svc env w))"
    by (simp add: disconnect_svc_resolves(2) [OF d(2)] disconnect_svc_resolves(2) [OF d(1)])
next
  assume d: "svc_disconnect env = Some e"
  show "fst (disconnect_svc env w) = Inl e"
    by (rule disconnect_svc_rejects(1) [OF d])
  show "snd (disconnect_svc env w)
          = fire env DuringDisconnect (w\<lparr>trace := trace w @ [ServiceDisconnect]\<rparr>)"
    by (rule disconnect_svc_rejects(2) [OF d])
qed

theorem disconnect_forwards_to_provider_witness:
  "fst (disconnect example_env fresh_world) = Inr ()
   \<and> fst (disconnect example_env (snd (disconnect example_env fresh_world))) = Inr ()
   \<and> fst (disconnect_svc example_env connected_world) = Inr ()
   \<and> wallet_address (wallet (snd (disconnect_svc example_env connected_world))) = None
   \<and> \<not> isConnected (wallet (snd (disconnect_svc example_env connected_world)))
   \<and> fst (disconnect_svc example_env (snd (disconnect_svc example_env connected_world))) = Inr ()
   \<and> wallet_address
        (wallet (snd (disconnect_svc example_env (snd (disconnect_svc example_env connected_world)))))
       = None
   \<and> fst (disconnect env_disconnect_rejects fresh_world) = Inl (new_Error ''Wallet not connected'')
   \<and> snd (disconnect_svc env_disconnect_rejects connected_world)
       = connected_world\<lparr>trace := [ServiceDisconnect]\<rparr>"
proof -
  have resolves: "aptosDisconnect example_env = None" "svc_disconnect example_env = None"
    by (simp_all add: example_env_def)
  have rejects: "aptosDisconnect env_disconnect_rejects = Some (new_Error ''Wallet not connected'')"
    "svc_disconnect env_disconnect_rejects = Some (new_Error ''Wallet not connected'')"
    by (simp_all add: env_disconnect_rejects_def)
  have quiet: "fire env_disconnect_rejects DuringDisconnect w = w" for w
    by (simp add: fire_def env_disconnect_rejects_def example_env_def)
  have start: "trace connected_world = []"
    by (simp add: connected_world_def fresh_world_def)
  show ?thesis
    using disconnect_forwards_to_provider
      [where env = example_env and env' = example_env and w = fresh_world]
      disconnect_forwards_to_provider
      [where env = example_env and env' = example_env and w = connected_world]
      disconnect_forwards_to_provider
      [where env = env_disconnect_rejects and w = fresh_world
         and e = "new_Error ''Wallet not connected''"]
      disconnect_forwards_to_provider
      [where env = env_disconnect_rejects and w = connected_world
         and e = "new_Error ''Wallet not connected''"]
      resolves rejects quiet start
    by simp
qed

theorem disconnect_rethrows_counterexample:
  "fst (disconnect env_disconnect_rejects fresh_world) = Inl (new_Error ''Wallet not connected'')
   \<and> fst (disconnect_svc env_disconnect_rejects connected_world)
       = Inl (new_Error ''Wallet not connected'')
   \<and> isConnected (wallet (snd (disconnect_svc env_disconnect_rejects connected_world)))
   \<and> wallet_address (wallet (snd (disconnect_svc env_disconnect_rejects connected_world)))
       = Some ''0xABC''"
proof -
  have rejects: "aptosDisconnect env_disconnect_rejects = Some (new_Error ''Wallet not connected'')"
    "svc_disconnect env_disconnect_rejects = Some (new_Error ''Wallet not connected'')"
    by (simp_all add: env_disconnect_rejects_def)
  have quiet: "fire env_disconnect_rejects DuringDisconnect w = w" for w
    by (simp add: fire_def env_disconnect_rejects_def example_env_def)
  have state: "isConnected (wallet connected_world)"
    "wallet_address (wallet connected_world) = Some ''0xABC''"
    by (simp_all add: connected_world_def fresh_world_def fresh_wallet_def)
  show ?thesis
    using disconnect_rejects [OF rejects(1), of fresh_world]
      disconnect_svc_rejects [OF rejects(2), of connected_world] quiet state
    by simp
qed

text \<open>
  C7. \<open>signMessage\<close> of the SDK-backed context requires a connected wallet: when
  \<open>connected\<close> is false or there is no account, it throws ``Wallet not connected'' for every
  message and leaves the world as it was, so the provider's sign capability is not invoked.
  \<open>signMessage\<close> of the service-backed context has no guard: in every wallet state it hands
  the message to \<open>walletService.signMessage\<close> and returns that call's outcome.
\<close>

theorem signMessage_connection_guard:
  "(\<not> connected r \<or> account r = None
      \<longrightarrow> signMessage env r message w = (Inl (new_Error ''Wallet not connected''), w))
   \<and> signMessage_svc env message w =
       (svc_signMessage env message,
        fire env DuringSign (w\<lparr>trace := trace w @ [ServiceSignMessage message]\<rparr>))
   \<and> trace (snd (signMessage_svc env message w)) = trace w @ [ServiceSignMessage message]"
  by (simp add: signMessage_def throw_def signMessage_svc_forwards)

theorem signMessage_connection_guard_witness:
  "\<not> connected render_not_installed
   \<and> signMessage example_env render_not_installed ''hello'' fresh_world
       = (Inl (new_Error ''Wallet not connected''), fresh_world)
   \<and> trace (snd (signMessage_svc example_env ''hello'' fresh_world)) = [ServiceSignMessage ''hello'']"
proof -
  have cold: "\<not> connected render_not_installed" "trace fresh_world = []"
    by (simp_all add: render_not_installed_def fresh_world_def)
  show ?thesis
    using signMessage_connection_guard
      [where r = render_not_installed and env = example_env and message = "''hello''"
         and w = fresh_world]
      cold
    by simp
qed

theorem service_signMessage_unguarded_counterexample:
  "\<not> isConnected (wallet fresh_world)
   \<and> wallet_address (wallet fresh_world) = None
   \<and> fst (signMessage_svc example_env ''hello'' fresh_world)
       = Inr \<lparr>signature = ''0xSIG'', fullMessage = ''hello'', nonce = ''n1''\<rparr>
   \<and> trace (snd (signMessage_svc example_env ''hello'' fresh_world))
       = [ServiceSignMessage ''hello'']"
proof -
  have cold: "\<not> isConnected (wallet fresh_world)" "wallet_address (wallet fresh_world) = None"
    "trace fresh_world = []"
    by (simp_all add: fresh_world_def fresh_wallet_def)
  have signs: "svc_signMessage example_env ''hello''
                 = Inr \<lparr>signature = ''0xSIG'', fullMessage = ''hello'', nonce = ''n1''\<rparr>"
    by (simp add: example_env_def example_signature_def)
  show ?thesis
    using signMessage_svc_forwards [of example_env "''hello''" fresh_world] cold signs
    by simp
qed

text \<open>
  C8. When an API call is rejected with HTTP status 401, the response interceptor removes the
  stored value under the key \<open>token\<close> and sets the location to \<open>/login\<close>; for a rejection
  with any other status, or without a response, the world is left unchanged. The error is
  rejected again in both cases, and \<open>api.post\<close> behaves so for every rejected exchange.
\<close>

theorem unauthorized_clears_token:
  "(response_interceptor_error err w :: (js_error + axios_response) \<times> world) =
     (Inl err,
      if response_status err = Some 401
      then w\<lparr>localStorage := (localStorage w)(''token'' := None), location_href := ''/login''\<rparr>
      else w)
   \<and> (http_post env (request_interceptor w \<lparr>url = u, authorization = None, payload = d\<rparr>) = Inl err
        \<longrightarrow> fst (api_post env u d w) = Inl err
          \<and> localStorage (snd (api_post env u d w))
              = (if response_status err = Some 401 then (localStorage w)(''token'' := None)
                 else localStorage w)
          \<and> location_href (snd (api_post env u d w))
              = (if response_status err = Some 401 then ''/login'' else location_href w))"
  by (simp add: response_interceptor_error_def api_post_def prog_defs Let_def)

theorem unauthorized_clears_token_witness:
  "localStorage logged_in_world ''token'' = Some ''tok-old''
   \<and> localStorage (snd (api_post env_verify_401 ''/auth/link-wallet''
        \<lparr>body_address = ''0xABC'', body_publicKey = None, body_signature = ''s'',
         body_message = ''m'', body_nonce = ''n''\<rparr> logged_in_world)) ''token'' = None
   \<and> location_href (snd (api_post env_verify_401 ''/auth/link-wallet''
        \<lparr>body_address = ''0xABC'', body_publicKey = None, body_signature = ''s'',
         body_message = ''m'', body_nonce = ''n''\<rparr> logged_in_world)) = ''/login''"
proof -
  have rejected: "http_post env_verify_401 c = Inl (http_error 401 ''Token expired'')" for c
    by (simp add: env_verify_401_def)
  have status: "response_status (http_error 401 ''Token expired'') = Some 401"
    by (simp add: http_error_def response_status_def)
  have stored: "localStorage logged_in_world ''token'' = Some ''tok-old''"
    by (simp add: logged_in_world_def)
  show ?thesis
    using unauthorized_clears_token [of "http_error 401 ''Token expired''" logged_in_world
        env_verify_401 "''/auth/link-wallet''"
        "\<lparr>body_address = ''0xABC'', body_publicKey = None, body_signature = ''s'',
          body_message = ''m'', body_nonce = ''n''\<rparr>"]
      rejected status stored
    by simp
qed

text \<open>
  C9. An account change reported while \<open>authenticateWithWallet\<close> is suspended
  does not abort the attempt; there is no SessionChanged outcome. Whatever account changes the
  provider reports at the suspension points, once sign and the backend call succeed the
  attempt returns \<open>{success: true, token}\<close>, and the backend call carries the address the
  callback started with. The handler only updates the wallet state: after a change to account
  \<open>b\<close> during sign or during verify, the state holds \<open>b\<close>'s address while the verify
  request carried the earlier one. In the SDK-backed context the request carries the address of the render's
  account.
\<close>

theorem account_change_does_not_abort:
  "(wallet_address (wallet w) = Some addr \<and> addr \<noteq> []
      \<and> svc_signMessage env (svc_generateAuthMessage env addr) = Inr sr
      \<and> http_post env (wallet_request w ''/auth/wallet'' addr
           (js_or (wallet_publicKey (wallet w)) (svc_getPublicKey env)) sr)
         = Inr (AxiosResponse (Some (ResponseBody (Some (TokenBody tok)))))
    \<longrightarrow> fst (authenticateWithWallet_svc env w) = Inr \<lparr>success = True, token = tok, error = None\<rparr>
      \<and> trace (snd (authenticateWithWallet_svc env w)) = trace w @
          [ServiceSignMessage (svc_generateAuthMessage env addr),
           HttpPost (wallet_request w ''/auth/wallet'' addr
             (js_or (wallet_publicKey (wallet w)) (svc_getPublicKey env)) sr)])
   \<and> (isPetraInstalled (wallet w) \<and> wallet_address (wallet w) = Some addr \<and> addr \<noteq> []
      \<and> account_events env DuringSign = [Some b] \<and> account_events env DuringVerify = []
      \<and> svc_signMessage env (svc_generateAuthMessage env addr) = Inr sr
      \<and> http_post env (wallet_request w ''/auth/wallet'' addr
           (js_or (wallet_publicKey (wallet w)) (svc_getPublicKey env)) sr)
         = Inr (AxiosResponse (Some (ResponseBody (Some (TokenBody tok)))))
    \<longrightarrow> wallet_address (wallet (snd (authenticateWithWallet_svc env w))) = Some (address b))
   \<and> (isPetraInstalled (wallet w) \<and> wallet_address (wallet w) = Some addr \<and> addr \<noteq> []
      \<and> account_events env DuringSign = [] \<and> account_events env DuringVerify = [Some b]
      \<and> svc_signMessage env (svc_generateAuthMessage env addr) = Inr sr
      \<and> http_post env (wallet_request w ''/auth/wallet'' addr
           (js_or (wallet_publicKey (wallet w)) (svc_getPublicKey env)) sr)
         = Inr (AxiosResponse (Some (ResponseBody (Some (TokenBody tok)))))
    \<longrightarrow> wallet_address (wallet (snd (authenticateWithWallet_svc env w))) = Some (address b))
   \<and> (connected r \<and> account r = Some a \<and> address a \<noteq> []
      \<and> aptosSignMessage env (auth_message_text (address a) (date_now env (ticks w)))
           (sdk_nonce env w) = Inr sr'
      \<and> http_post env (wallet_request w ''/auth/wallet'' (address a) (Some (publicKey a)) sr')
         = Inr (AxiosResponse (Some (ResponseBody (Some (TokenBody tok)))))
    \<longrightarrow> trace (snd (authenticateWithWallet env r w)) = trace w @
          [AptosSignMessage (auth_message_text (address a) (date_now env (ticks w)))
             (sdk_nonce env w),
           HttpPost (wallet_request w ''/auth/wallet'' (address a) (Some (publicKey a)) sr')])"
  using svc_auth_success(1,3) [of w addr env sr tok]
    svc_auth_account_switch [of w addr env b sr tok]
    svc_auth_account_switch_verify [of w addr env b sr tok]
    sdk_auth_success(3) [of r a env w sr' tok]
  by blast

theorem account_change_does_not_abort_witness:
  "account_events env_account_switch DuringSign = [Some other_account]
   \<and> wallet_address (wallet connected_world) = Some ''0xABC''
   \<and> fst (authenticateWithWallet_svc env_account_switch connected_world)
       = Inr \<lparr>success = True, token = Some ''tok123'', error = None\<rparr>
   \<and> wallet_address (wallet (snd (authenticateWithWallet_svc env_account_switch connected_world)))
       = Some ''0xDEF''
   \<and> fst (authenticateWithWallet_svc env_account_switch_verify connected_world)
       = Inr \<lparr>success = True, token = Some ''tok123'', error = None\<rparr>
   \<and> wallet_address
        (wallet (snd (authenticateWithWallet_svc env_account_switch_verify connected_world)))
       = Some ''0xDEF''
   \<and> trace (snd (authenticateWithWallet env_account_switch render_connected fresh_world))
       = [AptosSignMessage (auth_message_text ''0xABC'' 1000) (show_nat 1001 @ ''k3j9x''),
          HttpPost (wallet_request fresh_world ''/auth/wallet'' ''0xABC'' (Some ''0xPUB'')
            (example_signature (auth_message_text ''0xABC'' 1000) (show_nat 1001 @ ''k3j9x'')))]"
proof -
  have state: "isPetraInstalled (wallet connected_world)"
    "wallet_address (wallet connected_world) = Some ''0xABC''"
    "wallet_publicKey (wallet connected_world) = Some ''0xPUB''"
    by (simp_all add: connected_world_def fresh_world_def fresh_wallet_def)
  have sdk: "connected render_connected" "account render_connected = Some example_account"
    "address example_account = ''0xABC''" "publicKey example_account = ''0xPUB''"
    "ticks fresh_world = 0" "trace fresh_world = []"
    "date_now env_account_switch 0 = 1000" "date_now env_account_switch (Suc 0) = 1001"
    "math_random env_account_switch = ''k3j9x''"
    "aptosSignMessage env_account_switch m n = Inr (example_signature m n)" for m n
    by (simp_all add: render_connected_def example_account_def fresh_world_def
        env_account_switch_def example_env_def)
  have events: "account_events env_account_switch DuringSign = [Some other_account]"
    "account_events env_account_switch DuringVerify = []"
    by (simp_all add: env_account_switch_def)
  have late: "account_events env_account_switch_verify DuringSign = []"
    "account_events env_account_switch_verify DuringVerify = [Some other_account]"
    "svc_signMessage env_account_switch_verify m = Inr (example_signature m ''n1'')"
    "http_post env_account_switch_verify req
       = Inr (AxiosResponse (Some (ResponseBody (Some (TokenBody (Some ''tok123''))))))"
    for m req
    by (simp_all add: env_account_switch_verify_def example_env_def token_response_def)
  have sign: "svc_signMessage env_account_switch m = Inr (example_signature m ''n1'')" for m
    by (simp add: env_account_switch_def example_env_def)
  have verify: "http_post env_account_switch req
                  = Inr (AxiosResponse (Some (ResponseBody (Some (TokenBody (Some ''tok123''))))))"
    for req
    by (simp add: env_account_switch_def example_env_def token_response_def)
  have other: "address other_account = ''0xDEF''"
    by (simp add: other_account_def)
  show ?thesis
    using account_change_does_not_abort
      [where w = connected_world and addr = "''0xABC''" and env = env_account_switch_verify
         and sr = "example_signature
                     (svc_generateAuthMessage env_account_switch_verify ''0xABC'') ''n1''"
         and tok = "Some ''tok123''" and b = other_account]
      late
      account_change_does_not_abort
      [where w = connected_world and addr = "''0xABC''" and env = env_account_switch
         and sr = "example_signature (svc_generateAuthMessage env_account_switch ''0xABC'') ''n1''"
         and tok = "Some ''tok123''" and b = other_account]
      account_change_does_not_abort
      [where w = fresh_world and env = env_account_switch and r = render_connected
         and a = example_account and tok = "Some ''tok123''"
         and sr' = "example_signature (auth_message_text ''0xABC'' 1000) (show_nat 1001 @ ''k3j9x'')"]
      state sdk events sign verify other
    by simp
qed

theorem stale_address_verified_counterexample:
  "account_events env_account_switch DuringSign = [Some other_account]
   \<and> fst (authenticateWithWallet_svc env_account_switch connected_world)
       = Inr \<lparr>success = True, token = Some ''tok123'', error = None\<rparr>
   \<and> wallet_address (wallet (snd (authenticateWithWallet_svc env_account_switch connected_world)))
       = Some ''0xDEF''
   \<and> trace (snd (authenticateWithWallet_svc env_account_switch connected_world))
       = [ServiceSignMessage ''Sign in to LifeVault: 0xABC'',
          HttpPost \<lparr>url = ''/auth/wallet'', authorization = None,
                    payload = \<lparr>body_address = ''0xABC'', body_publicKey = Some ''0xPUB'',
                               body_signature = ''0xSIG'',
                               body_message = ''Sign in to LifeVault: 0xABC'',
                               body_nonce = ''n1''\<rparr>\<rparr>]"
proof -
  have state: "isPetraInstalled (wallet connected_world)"
    "wallet_address (wallet connected_world) = Some ''0xABC''"
    "wallet_publicKey (wallet connected_world) = Some ''0xPUB''"
    "trace connected_world = []" "localStorage connected_world ''token'' = None"
    by (simp_all add: connected_world_def fresh_world_def fresh_wallet_def)
  have events: "account_events env_account_switch DuringSign = [Some other_account]"
    "account_events env_account_switch DuringVerify = []"
    by (simp_all add: env_account_switch_def)
  have message: "svc_generateAuthMessage env_account_switch ''0xABC'' = ''Sign in to LifeVault: 0xABC''"
    by (simp add: env_account_switch_def example_env_def)
  have sign: "svc_signMessage env_account_switch m = Inr (example_signature m ''n1'')" for m
    by (simp add: env_account_switch_def example_env_def)
  have verify: "http_post env_account_switch req
                  = Inr (AxiosResponse (Some (ResponseBody (Some (TokenBody (Some ''tok123''))))))"
    for req
    by (simp add: env_account_switch_def example_env_def token_response_def)
  have other: "address other_account = ''0xDEF''"
    by (simp add: other_account_def)
  have a: "wallet_address (wallet connected_world) = Some ''0xABC''" "''0xABC'' \<noteq> []"
    using state by simp_all
  show ?thesis
    using svc_auth_success(1,3) [OF a sign verify]
      svc_auth_account_switch [OF state(1) a events sign verify]
      state events message other
    by (simp add: request_interceptor_def localStorage_getItem_def example_signature_def
        js_or_def truthy_def)
qed

text \<open>
  C10. In the SDK-backed context, \<open>authenticateWithWallet\<close> called from a render whose
  account is null returns \<open>{success: false, error: 'No wallet connected'}\<close> even when the
  connect it triggers succeeds: the account read after the connect is the one of that render.
  The calls made are the connect and the 500 ms wait; the sign step is not reached.
\<close>

theorem cold_start_never_signs:
  assumes "account r = None" and "aptosConnect env ''Petra'' = None"
  shows "authenticateWithWallet env r w =
     (Inr \<lparr>success = False, token = None, error = Some ''No wallet connected''\<rparr>,
      w\<lparr>trace := trace w @ [AptosConnect ''Petra'', Delay 500]\<rparr>)"
  using assms by (simp add: authenticateWithWallet_def connect_resolves prog_defs)

theorem cold_start_never_signs_witness:
  "account render_not_installed = None \<and> aptosConnect example_env ''Petra'' = None
   \<and> fst (authenticateWithWallet example_env render_not_installed fresh_world)
       = Inr \<lparr>success = False, token = None, error = Some ''No wallet connected''\<rparr>
   \<and> trace (snd (authenticateWithWallet example_env render_not_installed fresh_world))
       = [AptosConnect ''Petra'', Delay 500]"
  using cold_start_never_signs [of render_not_installed example_env fresh_world]
  by (simp add: example_defs)

end
